theory Spec2Isabelle
  imports Complex_Main
begin

section \<open>Python values of the metrics dictionary\<close>

text \<open>
  The health functions of \<^verbatim>\<open>api/integrations/healthkit.py\<close> take an untyped
  \<^verbatim>\<open>Dict\<close>. The values that the sync endpoint stores in it are \<^verbatim>\<open>None\<close>, an
  \<^verbatim>\<open>int\<close> or a \<^verbatim>\<open>float\<close>. A finite float is a rational number, and every comparison
  below is against an integer constant, which Python performs exactly; the three
  special floats are kept apart.
\<close>

datatype pyfloat = FVal rat | FInf | FNegInf | FNaN

datatype pyval = PNone | PInt int | PFloat pyfloat

datatype error = TypeError | KeyError string | OverflowError | HTTPException int string

type_synonym pydict = "string \<rightharpoonup> pyval"

fun float_lt :: "pyfloat \<Rightarrow> int \<Rightarrow> bool" where
  "float_lt (FVal r) k = (r < of_int k)"
| "float_lt FInf k = False"
| "float_lt FNegInf k = True"
| "float_lt FNaN k = False"

fun float_ge :: "pyfloat \<Rightarrow> int \<Rightarrow> bool" where
  "float_ge (FVal r) k = (of_int k \<le> r)"
| "float_ge FInf k = True"
| "float_ge FNegInf k = False"
| "float_ge FNaN k = False"

text \<open>Truthiness, as \<^verbatim>\<open>if x:\<close> tests it: \<^verbatim>\<open>None\<close>, \<^verbatim>\<open>0\<close> and \<^verbatim>\<open>0.0\<close> are false.\<close>

fun truthy :: "pyval \<Rightarrow> bool" where
  "truthy PNone = False"
| "truthy (PInt i) = (i \<noteq> 0)"
| "truthy (PFloat (FVal r)) = (r \<noteq> 0)"
| "truthy (PFloat f) = True"

text \<open>\<^verbatim>\<open>x < k\<close> and \<^verbatim>\<open>x >= k\<close> for an integer constant \<^verbatim>\<open>k\<close>: ordering \<^verbatim>\<open>None\<close>
  against a number raises \<^verbatim>\<open>TypeError\<close>.\<close>

fun py_lt :: "pyval \<Rightarrow> int \<Rightarrow> error + bool" where
  "py_lt PNone k = Inl TypeError"
| "py_lt (PInt i) k = Inr (i < k)"
| "py_lt (PFloat f) k = Inr (float_lt f k)"

fun py_ge :: "pyval \<Rightarrow> int \<Rightarrow> error + bool" where
  "py_ge PNone k = Inl TypeError"
| "py_ge (PInt i) k = Inr (k \<le> i)"
| "py_ge (PFloat f) k = Inr (float_ge f k)"

text \<open>\<^verbatim>\<open>a and b\<close>: the right operand is evaluated only when the left one is true.\<close>

definition py_and :: "error + bool \<Rightarrow> error + bool \<Rightarrow> error + bool" where
  "py_and a b = (case a of Inl e \<Rightarrow> Inl e | Inr c \<Rightarrow> (if c then b else Inr False))"

definition bind_err :: "error + 'a \<Rightarrow> ('a \<Rightarrow> error + 'b) \<Rightarrow> error + 'b" where
  "bind_err m f = (case m of Inl e \<Rightarrow> Inl e | Inr x \<Rightarrow> f x)"

text \<open>\<^verbatim>\<open>d.get(k)\<close>, \<^verbatim>\<open>d.get(k, default)\<close> and \<^verbatim>\<open>d[k]\<close>. The default of \<^verbatim>\<open>get\<close> is used
  only when the key is missing, not when it is stored with the value \<^verbatim>\<open>None\<close>.\<close>

definition dict_get :: "pydict \<Rightarrow> string \<Rightarrow> pyval" where
  "dict_get d k = (case d k of None \<Rightarrow> PNone | Some v \<Rightarrow> v)"

definition dict_get_default :: "pydict \<Rightarrow> string \<Rightarrow> pyval \<Rightarrow> pyval" where
  "dict_get_default d k dflt = (case d k of None \<Rightarrow> dflt | Some v \<Rightarrow> v)"

definition dict_item :: "pydict \<Rightarrow> string \<Rightarrow> error + pyval" where
  "dict_item d k = (case d k of None \<Rightarrow> Inl (KeyError k) | Some v \<Rightarrow> Inr v)"

section \<open>The metrics snapshot and the dictionary the sync stores\<close>

text \<open>
  \<^verbatim>\<open>HealthMetrics\<close> (and the same five fields of \<^verbatim>\<open>HealthKitSyncRequest\<close>): every field
  is \<^verbatim>\<open>Optional\<close> with default \<^verbatim>\<open>None\<close>.
\<close>

record HealthMetrics =
  heart_rate :: "int option"
  steps :: "int option"
  active_calories :: "int option"
  vo2_max :: "pyfloat option"
  sleep_hours :: "pyfloat option"

definition int_field :: "int option \<Rightarrow> pyval" where
  "int_field x = (case x of None \<Rightarrow> PNone | Some i \<Rightarrow> PInt i)"

definition float_field :: "pyfloat option \<Rightarrow> pyval" where
  "float_field x = (case x of None \<Rightarrow> PNone | Some f \<Rightarrow> PFloat f)"

text \<open>
  The \<^verbatim>\<open>"metrics"\<close> entry that \<^verbatim>\<open>sync_healthkit_data\<close> writes to the store: all five
  keys are always present, an absent field is stored as \<^verbatim>\<open>None\<close>. This dictionary is
  what \<^verbatim>\<open>get_health_recommendations\<close> and \<^verbatim>\<open>get_health_stats\<close> pass on to
  \<^verbatim>\<open>generate_training_plan\<close> and \<^verbatim>\<open>calculate_health_score\<close>.
\<close>

definition sync_metrics :: "HealthMetrics \<Rightarrow> pydict" where
  "sync_metrics data =
     [''heart_rate'' \<mapsto> int_field (heart_rate data),
      ''steps'' \<mapsto> int_field (steps data),
      ''active_calories'' \<mapsto> int_field (active_calories data),
      ''vo2_max'' \<mapsto> float_field (vo2_max data),
      ''sleep_hours'' \<mapsto> float_field (sleep_hours data)]"

section \<open>The training plan\<close>

record training_plan =
  recommended_intensity :: string
  message :: string
  suggested_activities :: "string list"
  optimal_training_time :: string
  duration :: string

text \<open>The emoji of the source's string literals are written as their UTF-8 bytes.\<close>

definition get_suggested_activities :: "string \<Rightarrow> string list" where
  "get_suggested_activities intensity =
     (if intensity = ''High'' then
        [[CHR 0xF0, CHR 0x9F, CHR 0x8F, CHR 0x80] @ '' Intense basketball scrimmage'',
         [CHR 0xF0, CHR 0x9F, CHR 0x8F, CHR 0x83] @ '' HIIT training session'',
         [CHR 0xF0, CHR 0x9F, CHR 0x92, CHR 0xAA] @ '' Strength & power workout'']
      else if intensity = ''Moderate'' then
        [[CHR 0xF0, CHR 0x9F, CHR 0x8F, CHR 0x80] @ '' Moderate basketball practice'',
         [CHR 0xF0, CHR 0x9F, CHR 0x8F, CHR 0x83] @ '' Steady-state cardio'',
         [CHR 0xF0, CHR 0x9F, CHR 0x8E, CHR 0xAF] @ '' Skill development drills'']
      else
        [[CHR 0xF0, CHR 0x9F, CHR 0x8F, CHR 0x80] @ '' Light shooting practice'',
         [CHR 0xF0, CHR 0x9F, CHR 0xA7, CHR 0x98] @ '' Yoga & stretching'',
         [CHR 0xF0, CHR 0x9F, CHR 0x9A, CHR 0xB6] @ '' Active recovery walk''])"

text \<open>The dictionary that \<^verbatim>\<open>generate_training_plan\<close> returns, for the intensity and
  message its branch has chosen.\<close>

definition plan_for :: "string \<Rightarrow> string \<Rightarrow> training_plan" where
  "plan_for intensity msg =
     \<lparr>recommended_intensity = intensity,
      message = msg,
      suggested_activities = get_suggested_activities intensity,
      optimal_training_time = ''4:00 PM - 7:00 PM'',
      duration = ''45-60 minutes''\<rparr>"

definition generate_training_plan :: "pydict \<Rightarrow> error + training_plan" where
  "generate_training_plan metrics =
     (let sleep = dict_get_default metrics ''sleep_hours'' (PInt 0);
          hr = dict_get_default metrics ''heart_rate'' (PInt 70)
      in bind_err (py_and (py_ge sleep 8) (py_lt hr 60)) (\<lambda>high.
           if high then
             Inr (plan_for ''High''
                    ''Your body is well-recovered. Great day for intense training!'')
           else
             bind_err (py_and (py_ge sleep 7) (py_lt hr 75)) (\<lambda>moderate.
               if moderate then
                 Inr (plan_for ''Moderate''
                        ''Good recovery. Stick to your normal training intensity.'')
               else
                 Inr (plan_for ''Light''
                        ''Consider active recovery today. Your body needs rest.''))))"

section \<open>The health score\<close>

text \<open>The four blocks of \<^verbatim>\<open>calculate_health_score\<close>, each taking the running score.\<close>

definition heart_rate_contribution :: "pydict \<Rightarrow> int \<Rightarrow> error + int" where
  "heart_rate_contribution metrics score =
     (if truthy (dict_get metrics ''heart_rate'') then
        bind_err (dict_item metrics ''heart_rate'') (\<lambda>hr.
        bind_err (py_lt hr 60) (\<lambda>c1. if c1 then Inr (score + 15) else
        bind_err (py_lt hr 75) (\<lambda>c2. if c2 then Inr (score + 10) else
        bind_err (py_lt hr 100) (\<lambda>c3. if c3 then Inr (score + 5) else Inr score))))
      else Inr score)"

definition steps_contribution :: "pydict \<Rightarrow> int \<Rightarrow> error + int" where
  "steps_contribution metrics score =
     (if truthy (dict_get metrics ''steps'') then
        bind_err (dict_item metrics ''steps'') (\<lambda>st.
        bind_err (py_ge st 10000) (\<lambda>c1. if c1 then Inr (score + 15) else
        bind_err (py_ge st 7000) (\<lambda>c2. if c2 then Inr (score + 10) else
        bind_err (py_ge st 5000) (\<lambda>c3. if c3 then Inr (score + 5) else Inr score))))
      else Inr score)"

definition sleep_contribution :: "pydict \<Rightarrow> int \<Rightarrow> error + int" where
  "sleep_contribution metrics score =
     (if truthy (dict_get metrics ''sleep_hours'') then
        bind_err (dict_item metrics ''sleep_hours'') (\<lambda>sleep.
        bind_err (py_ge sleep 8) (\<lambda>c1. if c1 then Inr (score + 10) else
        bind_err (py_ge sleep 7) (\<lambda>c2. if c2 then Inr (score + 7) else
        bind_err (py_ge sleep 6) (\<lambda>c3. if c3 then Inr (score + 3) else Inr score))))
      else Inr score)"

definition vo2_max_contribution :: "pydict \<Rightarrow> int \<Rightarrow> error + int" where
  "vo2_max_contribution metrics score =
     (if truthy (dict_get metrics ''vo2_max'') then
        bind_err (dict_item metrics ''vo2_max'') (\<lambda>vo2.
        bind_err (py_ge vo2 50) (\<lambda>c1. if c1 then Inr (score + 10) else
        bind_err (py_ge vo2 40) (\<lambda>c2. if c2 then Inr (score + 7) else
        bind_err (py_ge vo2 30) (\<lambda>c3. if c3 then Inr (score + 3) else Inr score))))
      else Inr score)"

definition calculate_health_score :: "pydict \<Rightarrow> error + int" where
  "calculate_health_score metrics =
     bind_err (heart_rate_contribution metrics 50) (\<lambda>s1.
     bind_err (steps_contribution metrics s1) (\<lambda>s2.
     bind_err (sleep_contribution metrics s2) (\<lambda>s3.
     bind_err (vo2_max_contribution metrics s3) (\<lambda>s4.
     Inr (min s4 100)))))"

subsection \<open>The score as the specification words it\<close>

text \<open>
  The breakpoint table of the specification, one function per metric, and the score it
  describes: base 50, the bonus of every present metric, clamped to the range 0 to 100.
  These definitions follow the specification, to be compared with
  \<^const>\<open>calculate_health_score\<close>.
\<close>

definition spec_heart_rate_bonus :: "int \<Rightarrow> int" where
  "spec_heart_rate_bonus hr =
     (if hr < 60 then 15 else if hr < 75 then 10 else if hr < 100 then 5 else 0)"

definition spec_steps_bonus :: "int \<Rightarrow> int" where
  "spec_steps_bonus st =
     (if 10000 \<le> st then 15 else if 7000 \<le> st then 10 else if 5000 \<le> st then 5 else 0)"

definition spec_sleep_bonus :: "pyfloat \<Rightarrow> int" where
  "spec_sleep_bonus sl =
     (if float_ge sl 8 then 10 else if float_ge sl 7 then 7 else if float_ge sl 6 then 3 else 0)"

definition spec_vo2_max_bonus :: "pyfloat \<Rightarrow> int" where
  "spec_vo2_max_bonus v =
     (if float_ge v 50 then 10 else if float_ge v 40 then 7 else if float_ge v 30 then 3 else 0)"

definition bonus_if_present :: "('a \<Rightarrow> int) \<Rightarrow> 'a option \<Rightarrow> int" where
  "bonus_if_present table x = (case x of None \<Rightarrow> 0 | Some v \<Rightarrow> table v)"

definition spec_score :: "HealthMetrics \<Rightarrow> int" where
  "spec_score s =
     max 0 (min 100
       (50 + bonus_if_present spec_heart_rate_bonus (heart_rate s)
           + bonus_if_present spec_steps_bonus (steps s)
           + bonus_if_present spec_sleep_bonus (sleep_hours s)
           + bonus_if_present spec_vo2_max_bonus (vo2_max s)))"

text \<open>A heart rate of 0 read as no heart rate at all.\<close>

definition zero_as_absent :: "int option \<Rightarrow> int option" where
  "zero_as_absent x = (if x = Some 0 then None else x)"

section \<open>The achievement catalog\<close>

text \<open>
  \<^verbatim>\<open>ACHIEVEMENTS\<close> of \<^verbatim>\<open>api/integrations/achievements.py\<close>. Only
  \<^verbatim>\<open>seven_day_streak\<close> has a \<^verbatim>\<open>"reward"\<close> entry; \<^verbatim>\<open>.get("reward")\<close> is \<^verbatim>\<open>None\<close> for
  the others.
\<close>

record achievement_data =
  name :: string
  description :: string
  points :: int
  icon :: string
  reward :: "string option"
  viral_text :: string

definition ACHIEVEMENTS :: "string \<rightharpoonup> achievement_data" where
  "ACHIEVEMENTS = map_of
     [(''first_booking'',
       \<lparr>name = ''First Steps'',
        description = ''Booked your first training session'',
        points = 50,
        icon = [CHR 0xF0, CHR 0x9F, CHR 0x8F, CHR 0x86],
        reward = None,
        viral_text = ''I just booked my first run via GIA! ''
                       @ [CHR 0xF0, CHR 0x9F, CHR 0x9A, CHR 0x80]\<rparr>),
      (''seven_day_streak'',
       \<lparr>name = ''Consistency King'',
        description = ''7-day training streak'',
        points = 100,
        icon = [CHR 0xF0, CHR 0x9F, CHR 0x94, CHR 0xA5],
        reward = Some ''Free Training Session'',
        viral_text = ''My 7-day streak unlocked a free session! ''
                       @ [CHR 0xF0, CHR 0x9F, CHR 0x94, CHR 0xA5]\<rparr>),
      (''quick_court_find'',
       \<lparr>name = ''Court Master'',
        description = ''Found a court in under 30 seconds'',
        points = 75,
        icon = [CHR 0xE2, CHR 0x9A, CHR 0xA1],
        reward = None,
        viral_text = ''GIA found me a court in 30 seconds! ''
                       @ [CHR 0xE2, CHR 0x9A, CHR 0xA1]\<rparr>),
      (''perfect_game'',
       \<lparr>name = ''Perfect Performance'',
        description = ''Achieved a perfect game score'',
        points = 150,
        icon = [CHR 0xF0, CHR 0x9F, CHR 0x8E, CHR 0xAF],
        reward = None,
        viral_text = ''Just had a perfect game! ''
                       @ [CHR 0xF0, CHR 0x9F, CHR 0x8E, CHR 0xAF]\<rparr>),
      (''social_sharer'',
       \<lparr>name = ''Social Butterfly'',
        description = ''Shared 5 achievements'',
        points = 25,
        icon = [CHR 0xF0, CHR 0x9F, CHR 0x93, CHR 0xB1],
        reward = None,
        viral_text = ''Leveling up my game with GoodRunss! ''
                       @ [CHR 0xF0, CHR 0x9F, CHR 0x93, CHR 0xB1]\<rparr>)]"

section \<open>The database\<close>

text \<open>
  The tables of \<^verbatim>\<open>models.py\<close> that the achievement endpoints query, with the columns
  they read or write. A \<^verbatim>\<open>DateTime\<close> is a number of microseconds; a nullable column is
  an option. Rows are kept in the order the store returns them, which is the order
  \<^verbatim>\<open>.first()\<close> and \<^verbatim>\<open>.all()\<close> see.
\<close>

type_synonym datetime = int

definition timedelta_days :: "int \<Rightarrow> int" where
  "timedelta_days d = d * 86400000000"

record User =
  u_id :: int

record Booking =
  booking_user_id :: int
  booking_created_at :: "datetime option"

record Game =
  game_user_id :: int
  game_score :: int

record UserAchievement =
  ua_id :: int
  ua_user_id :: int
  achievement_key :: string
  unlocked_at :: "datetime option"
  shared :: bool
  shared_platform :: "string option"
  shared_at :: "datetime option"

record database =
  users :: "User list"
  bookings :: "Booking list"
  games :: "Game list"
  user_achievements :: "UserAchievement list"

text \<open>
  \<^verbatim>\<open>user_id\<close> is a Python \<^verbatim>\<open>int\<close> of any size, and every query binds it as a parameter.
  The default SQLite store takes a 64-bit signed integer: binding a larger one raises
  \<^verbatim>\<open>OverflowError\<close> in the driver, before any row is read.
\<close>

definition sqlite_integer :: "int \<Rightarrow> bool" where
  "sqlite_integer i \<longleftrightarrow> - (2 ^ 63) \<le> i \<and> i < 2 ^ 63"

text \<open>\<^verbatim>\<open>db.query(User).filter(User.id == user_id).first()\<close>: the row it finds, if the
  parameter is bound.\<close>

definition find_user :: "database \<Rightarrow> int \<Rightarrow> User option" where
  "find_user db user_id = find (\<lambda>u. u_id u = user_id) (users db)"

definition query_user :: "database \<Rightarrow> int \<Rightarrow> error + User option" where
  "query_user db user_id =
     (if sqlite_integer user_id then Inr (find_user db user_id) else Inl OverflowError)"

text \<open>\<^verbatim>\<open>db.query(UserAchievement).filter(user_id == ..., achievement_key == ...).first()\<close>\<close>

definition is_unlock :: "int \<Rightarrow> string \<Rightarrow> UserAchievement \<Rightarrow> bool" where
  "is_unlock user_id key ua \<longleftrightarrow> ua_user_id ua = user_id \<and> achievement_key ua = key"

definition find_unlock :: "database \<Rightarrow> int \<Rightarrow> string \<Rightarrow> UserAchievement option" where
  "find_unlock db user_id key = find (is_unlock user_id key) (user_achievements db)"

definition query_existing ::
  "database \<Rightarrow> int \<Rightarrow> string \<Rightarrow> error + UserAchievement option" where
  "query_existing db user_id key =
     (if sqlite_integer user_id then Inr (find_unlock db user_id key) else Inl OverflowError)"

text \<open>The three \<^verbatim>\<open>.count()\<close> queries of \<^verbatim>\<open>check_achievements\<close>. A comparison with a
  \<^verbatim>\<open>NULL\<close> \<^verbatim>\<open>created_at\<close> selects no row.\<close>

definition bookings_count :: "database \<Rightarrow> int \<Rightarrow> int" where
  "bookings_count db user_id =
     int (length (filter (\<lambda>b. booking_user_id b = user_id) (bookings db)))"

definition recent_bookings :: "database \<Rightarrow> int \<Rightarrow> datetime \<Rightarrow> int" where
  "recent_bookings db user_id seven_days_ago =
     int (length (filter
       (\<lambda>b. booking_user_id b = user_id \<and>
            (case booking_created_at b of None \<Rightarrow> False | Some t \<Rightarrow> seven_days_ago \<le> t))
       (bookings db)))"

definition perfect_games :: "database \<Rightarrow> int \<Rightarrow> int" where
  "perfect_games db user_id =
     int (length (filter (\<lambda>g. game_user_id g = user_id \<and> game_score g = 100) (games db)))"

subsection \<open>The session: pending objects and commit\<close>

text \<open>
  \<^verbatim>\<open>SessionLocal\<close> is made with \<^verbatim>\<open>autoflush=False\<close>: an object given to \<^verbatim>\<open>db.add\<close> stays
  pending, unseen by later queries, until \<^verbatim>\<open>db.commit()\<close> inserts it. The insert gives
  the row its key and the column defaults (\<^verbatim>\<open>shared=False\<close>, the share columns \<^verbatim>\<open>NULL\<close>).
  The key is the next row id of the default SQLite store: 1 in an empty table, else one
  more than the largest id; when the largest id is the greatest 64-bit integer, the
  store draws an unused positive id at random, for which the model takes the least one.
\<close>

record pending_achievement =
  pa_user_id :: int
  pa_key :: string
  pa_unlocked_at :: datetime

fun first_unused :: "int list \<Rightarrow> nat \<Rightarrow> int \<Rightarrow> int" where
  "first_unused ids 0 i = i"
| "first_unused ids (Suc n) i = (if i \<in> set ids then first_unused ids n (i + 1) else i)"

fun next_id :: "UserAchievement list \<Rightarrow> int" where
  "next_id [] = 1"
| "next_id (r # rs) =
     (let largest = fold max (map ua_id rs) (ua_id r)
      in if largest < 2 ^ 63 - 1 then largest + 1
         else first_unused (map ua_id (r # rs)) (length (r # rs)) 1)"

definition insert_row :: "UserAchievement list \<Rightarrow> pending_achievement \<Rightarrow> UserAchievement" where
  "insert_row rows p =
     \<lparr>ua_id = next_id rows,
      ua_user_id = pa_user_id p,
      achievement_key = pa_key p,
      unlocked_at = Some (pa_unlocked_at p),
      shared = False,
      shared_platform = None,
      shared_at = None\<rparr>"

fun flush :: "UserAchievement list \<Rightarrow> pending_achievement list \<Rightarrow> UserAchievement list" where
  "flush rows [] = rows"
| "flush rows (p # ps) = flush (rows @ [insert_row rows p]) ps"

definition commit :: "database \<Rightarrow> pending_achievement list \<Rightarrow> database" where
  "commit db pending = db\<lparr>user_achievements := flush (user_achievements db) pending\<rparr>"

section \<open>The achievement endpoints\<close>

subsection \<open>\<^verbatim>\<open>check_achievements\<close>\<close>

text \<open>
  One field for each place where \<^verbatim>\<open>check_achievements\<close> reads \<^verbatim>\<open>datetime.utcnow()\<close>:
  the \<^verbatim>\<open>unlocked_at\<close> of each of the three new rows, and the start of the seven-day
  window. Each place is reached at most once in a call.
\<close>

record check_clock =
  now_first_booking :: datetime
  now_streak_window :: datetime
  now_seven_day_streak :: datetime
  now_perfect_game :: datetime

record unlocked_achievement =
  un_key :: string
  un_name :: string
  un_description :: string
  un_points :: int
  un_icon :: string
  un_viral_text :: string
  un_reward :: "string option"

record check_response =
  new_achievements :: "unlocked_achievement list"
  count :: int

text \<open>
  The block that the source repeats for each of its three keys: look for an existing
  row and, when there is none, add a new object to the session and the key to
  \<^verbatim>\<open>new_achievements\<close>. The state is the pair of the session's pending objects and
  \<^verbatim>\<open>new_achievements\<close>; an exception of the query leaves the block.
\<close>

definition unlock_if_new ::
  "database \<Rightarrow> int \<Rightarrow> string \<Rightarrow> datetime \<Rightarrow>
   pending_achievement list \<times> string list \<Rightarrow>
   error + pending_achievement list \<times> string list" where
  "unlock_if_new db user_id key now st =
     bind_err (query_existing db user_id key) (\<lambda>existing.
       case existing of
         None \<Rightarrow>
           Inr (fst st @ [\<lparr>pa_user_id = user_id, pa_key = key, pa_unlocked_at = now\<rparr>],
                snd st @ [key])
       | Some ua \<Rightarrow> Inr st)"

text \<open>The final loop: \<^verbatim>\<open>ACHIEVEMENTS[key]\<close> raises \<^verbatim>\<open>KeyError\<close> for a key that the
  catalog lacks.\<close>

definition unlocked_item :: "string \<Rightarrow> achievement_data \<Rightarrow> unlocked_achievement" where
  "unlocked_item key a =
     \<lparr>un_key = key,
      un_name = name a,
      un_description = description a,
      un_points = points a,
      un_icon = icon a,
      un_viral_text = viral_text a,
      un_reward = reward a\<rparr>"

fun unlocked_achievements :: "string list \<Rightarrow> error + unlocked_achievement list" where
  "unlocked_achievements [] = Inr []"
| "unlocked_achievements (key # keys) =
     (case ACHIEVEMENTS key of
        None \<Rightarrow> Inl (KeyError key)
      | Some a \<Rightarrow>
          bind_err (unlocked_achievements keys) (\<lambda>rest. Inr (unlocked_item key a # rest)))"

text \<open>
  An exception before \<^verbatim>\<open>db.commit()\<close> leaves the database as it was: the session is
  closed with its pending objects. The count queries bind the same \<^verbatim>\<open>user_id\<close> that the
  user query has bound before them.
\<close>

definition check_achievements ::
  "check_clock \<Rightarrow> int \<Rightarrow> database \<Rightarrow> (error + check_response) \<times> database" where
  "check_achievements clock user_id db =
     (case query_user db user_id of
        Inl e \<Rightarrow> (Inl e, db)
      | Inr None \<Rightarrow> (Inl (HTTPException 404 ''User not found''), db)
      | Inr (Some user) \<Rightarrow>
          (let seven_days_ago = now_streak_window clock - timedelta_days 7;
               blocks =
                 bind_err (if 1 \<le> bookings_count db user_id
                           then unlock_if_new db user_id ''first_booking''
                                  (now_first_booking clock) ([], [])
                           else Inr ([], [])) (\<lambda>st1.
                 bind_err (if 7 \<le> recent_bookings db user_id seven_days_ago
                           then unlock_if_new db user_id ''seven_day_streak''
                                  (now_seven_day_streak clock) st1
                           else Inr st1) (\<lambda>st2.
                 if 1 \<le> perfect_games db user_id
                 then unlock_if_new db user_id ''perfect_game'' (now_perfect_game clock) st2
                 else Inr st2))
           in case blocks of
                Inl e \<Rightarrow> (Inl e, db)
              | Inr st3 \<Rightarrow>
                  (let db' = commit db (fst st3)
                   in (bind_err (unlocked_achievements (snd st3)) (\<lambda>unlocked.
                         Inr \<lparr>new_achievements = unlocked, count = int (length unlocked)\<rparr>),
                       db'))))"

subsection \<open>\<^verbatim>\<open>share_achievement\<close>\<close>

record share_response =
  success :: bool
  sr_viral_text :: "string option"
  points_awarded :: "int option"

text \<open>The row that \<^verbatim>\<open>.first()\<close> returned is the one the assignments change.\<close>

fun update_first :: "('a \<Rightarrow> bool) \<Rightarrow> ('a \<Rightarrow> 'a) \<Rightarrow> 'a list \<Rightarrow> 'a list" where
  "update_first P f [] = []"
| "update_first P f (x # xs) = (if P x then f x # xs else x # update_first P f xs)"

definition mark_shared :: "string \<Rightarrow> datetime \<Rightarrow> UserAchievement \<Rightarrow> UserAchievement" where
  "mark_shared platform now ua =
     ua\<lparr>shared := True, shared_platform := Some platform, shared_at := Some now\<rparr>"

definition share_achievement ::
  "datetime \<Rightarrow> int \<Rightarrow> string \<Rightarrow> string \<Rightarrow> database \<Rightarrow> (error + share_response) \<times> database" where
  "share_achievement now user_id key platform db =
     (case query_existing db user_id key of
        Inl e \<Rightarrow> (Inl e, db)
      | Inr None \<Rightarrow> (Inl (HTTPException 404 ''Achievement not found''), db)
      | Inr (Some user_achievement) \<Rightarrow>
          (let db' = db\<lparr>user_achievements :=
                        update_first (is_unlock user_id key)
                          (mark_shared platform now) (user_achievements db)\<rparr>
           in case ACHIEVEMENTS key of
                Some achievement_data \<Rightarrow>
                  (Inr \<lparr>success = True,
                        sr_viral_text = Some (viral_text achievement_data),
                        points_awarded = Some 5\<rparr>, db')
              | None \<Rightarrow>
                  (Inr \<lparr>success = True, sr_viral_text = None, points_awarded = None\<rparr>,
                   db')))"

subsection \<open>\<^verbatim>\<open>get_user_achievements\<close>\<close>

record listed_achievement =
  la_id :: int
  la_key :: string
  la_name :: string
  la_description :: string
  la_points :: int
  la_icon :: string
  la_unlocked_at :: "datetime option"
  la_shared :: bool

definition listed_item :: "UserAchievement \<Rightarrow> listed_achievement list" where
  "listed_item ua =
     (case ACHIEVEMENTS (achievement_key ua) of
        None \<Rightarrow> []
      | Some a \<Rightarrow>
          [\<lparr>la_id = ua_id ua,
            la_key = achievement_key ua,
            la_name = name a,
            la_description = description a,
            la_points = points a,
            la_icon = icon a,
            la_unlocked_at = unlocked_at ua,
            la_shared = shared ua\<rparr>])"

text \<open>The listing only reads; the database it leaves is the one it got.\<close>

definition get_user_achievements ::
  "int \<Rightarrow> database \<Rightarrow> (error + listed_achievement list) \<times> database" where
  "get_user_achievements user_id db =
     (if sqlite_integer user_id
      then Inr (concat (map listed_item
                  (filter (\<lambda>ua. ua_user_id ua = user_id) (user_achievements db))))
      else Inl OverflowError, db)"

subsection \<open>\<^verbatim>\<open>get_achievement_leaderboard\<close>\<close>

record leaderboard_entry =
  le_user_id :: int
  le_username :: string
  le_total_points :: int
  le_achievements_count :: int
  le_rank :: int

text \<open>The endpoint takes the session and does not use it: it returns two fixed rows.\<close>

definition get_achievement_leaderboard :: "database \<Rightarrow> leaderboard_entry list" where
  "get_achievement_leaderboard db =
     [\<lparr>le_user_id = 1, le_username = ''BallPlayer123'', le_total_points = 450,
       le_achievements_count = 8, le_rank = 1\<rparr>,
      \<lparr>le_user_id = 2, le_username = ''CourtMaster'', le_total_points = 380,
       le_achievements_count = 6, le_rank = 2\<rparr>]"

text \<open>
  The total of a user as the specification words it: the sum of the catalog's points
  over the user's unlock rows. This definition follows the specification, to be
  compared with \<^const>\<open>get_achievement_leaderboard\<close>.
\<close>

definition spec_total_points :: "database \<Rightarrow> int \<Rightarrow> int" where
  "spec_total_points db user_id =
     sum_list (map (\<lambda>ua. case ACHIEVEMENTS (achievement_key ua) of
                            None \<Rightarrow> 0 | Some a \<Rightarrow> points a)
                 (filter (\<lambda>ua. ua_user_id ua = user_id) (user_achievements db)))"

section \<open>The ledger: counting, invariant, reachable states\<close>

definition unlock_count :: "database \<Rightarrow> int \<Rightarrow> string \<Rightarrow> nat" where
  "unlock_count db user_id key = length (filter (is_unlock user_id key) (user_achievements db))"

text \<open>At most one row for each pair of user and key.\<close>

definition ledger_inv :: "database \<Rightarrow> bool" where
  "ledger_inv db \<longleftrightarrow>
     distinct (map (\<lambda>ua. (ua_user_id ua, achievement_key ua)) (user_achievements db))"

text \<open>
  The condition under which \<^verbatim>\<open>check_achievements\<close> enters the block of a key: the
  three comparisons of the source, by key.
\<close>

definition qualifies :: "check_clock \<Rightarrow> database \<Rightarrow> int \<Rightarrow> string \<Rightarrow> bool" where
  "qualifies clock db user_id key =
     (if key = ''first_booking'' then 1 \<le> bookings_count db user_id
      else if key = ''seven_day_streak'' then
        7 \<le> recent_bookings db user_id (now_streak_window clock - timedelta_days 7)
      else if key = ''perfect_game'' then 1 \<le> perfect_games db user_id
      else False)"

definition new_keys :: "error + check_response \<Rightarrow> string list" where
  "new_keys res = (case res of Inl e \<Rightarrow> [] | Inr r \<Rightarrow> map un_key (new_achievements r))"

text \<open>
  The ledger states that the endpoints can produce: from an empty ledger, by any
  sequence of calls of the three endpoints, while the rest of the application changes
  the other tables at will.
\<close>

inductive reachable :: "database \<Rightarrow> bool" where
  initial: "user_achievements db = [] \<Longrightarrow> reachable db"
| check: "reachable db \<Longrightarrow> reachable (snd (check_achievements clock user_id db))"
| share: "reachable db \<Longrightarrow> reachable (snd (share_achievement now user_id key platform db))"
| listing: "reachable db \<Longrightarrow> reachable (snd (get_user_achievements user_id db))"
| other_tables: "reachable db \<Longrightarrow> reachable (db\<lparr>users := us, bookings := bs, games := gs\<rparr>)"

text \<open>
  What one call of \<^verbatim>\<open>check_achievements\<close> unlocks, in the order of its three blocks:
  the keys whose condition holds and that have no row yet; and the pending object the
  call creates for such a key, stamped at that block's reading of the clock.
\<close>

definition to_unlock :: "check_clock \<Rightarrow> database \<Rightarrow> int \<Rightarrow> string list" where
  "to_unlock clock db user_id =
     filter (\<lambda>key. qualifies clock db user_id key \<and> find_unlock db user_id key = None)
       [''first_booking'', ''seven_day_streak'', ''perfect_game'']"

definition unlock_time :: "check_clock \<Rightarrow> string \<Rightarrow> datetime" where
  "unlock_time clock key =
     (if key = ''first_booking'' then now_first_booking clock
      else if key = ''seven_day_streak'' then now_seven_day_streak clock
      else now_perfect_game clock)"

definition pending_for :: "check_clock \<Rightarrow> int \<Rightarrow> string \<Rightarrow> pending_achievement" where
  "pending_for clock user_id key =
     \<lparr>pa_user_id = user_id, pa_key = key, pa_unlocked_at = unlock_time clock key\<rparr>"

section \<open>Properties of the health score\<close>

lemma sync_metrics_lookup:
  "sync_metrics s ''heart_rate'' = Some (int_field (heart_rate s))"
  "sync_metrics s ''steps'' = Some (int_field (steps s))"
  "sync_metrics s ''active_calories'' = Some (int_field (active_calories s))"
  "sync_metrics s ''vo2_max'' = Some (float_field (vo2_max s))"
  "sync_metrics s ''sleep_hours'' = Some (float_field (sleep_hours s))"
  by (simp_all add: sync_metrics_def)

lemma heart_rate_contribution_sync:
  "heart_rate_contribution (sync_metrics s) sc =
     Inr (sc + bonus_if_present spec_heart_rate_bonus (zero_as_absent (heart_rate s)))"
  by (cases "heart_rate s")
     (simp_all add: heart_rate_contribution_def dict_get_def dict_item_def sync_metrics_lookup
        int_field_def bind_err_def bonus_if_present_def spec_heart_rate_bonus_def
        zero_as_absent_def)

lemma steps_contribution_sync:
  "steps_contribution (sync_metrics s) sc =
     Inr (sc + bonus_if_present spec_steps_bonus (steps s))"
  by (cases "steps s")
     (simp_all add: steps_contribution_def dict_get_def dict_item_def sync_metrics_lookup
        int_field_def bind_err_def bonus_if_present_def spec_steps_bonus_def)

text \<open>A float at or above a positive threshold is not zero, hence truthy.\<close>

lemma float_ge_truthy: "float_ge f k \<Longrightarrow> 0 < k \<Longrightarrow> truthy (PFloat f)"
  by (cases f) auto

lemma sleep_contribution_sync:
  "sleep_contribution (sync_metrics s) sc =
     Inr (sc + bonus_if_present spec_sleep_bonus (sleep_hours s))"
  by (cases "sleep_hours s")
     (auto simp add: sleep_contribution_def dict_get_def dict_item_def sync_metrics_lookup
        float_field_def bind_err_def bonus_if_present_def spec_sleep_bonus_def
        intro: float_ge_truthy)

lemma vo2_max_contribution_sync:
  "vo2_max_contribution (sync_metrics s) sc =
     Inr (sc + bonus_if_present spec_vo2_max_bonus (vo2_max s))"
  by (cases "vo2_max s")
     (auto simp add: vo2_max_contribution_def dict_get_def dict_item_def sync_metrics_lookup
        float_field_def bind_err_def bonus_if_present_def spec_vo2_max_bonus_def
        intro: float_ge_truthy)

lemma bonus_nonneg:
  "0 \<le> bonus_if_present spec_heart_rate_bonus a"
  "0 \<le> bonus_if_present spec_steps_bonus b"
  "0 \<le> bonus_if_present spec_sleep_bonus c"
  "0 \<le> bonus_if_present spec_vo2_max_bonus d"
  by (simp_all add: bonus_if_present_def spec_heart_rate_bonus_def spec_steps_bonus_def
        spec_sleep_bonus_def spec_vo2_max_bonus_def split: option.splits)

text \<open>
  The score of a stored snapshot is the specification's score of the snapshot in which
  a heart rate of 0 counts as absent. The lower clamp never acts: the sum is at least 50.
\<close>

lemma calculate_health_score_sync:
  "calculate_health_score (sync_metrics s) =
     Inr (spec_score (s\<lparr>heart_rate := zero_as_absent (heart_rate s)\<rparr>))"
proof -
  let ?b = "bonus_if_present spec_heart_rate_bonus (zero_as_absent (heart_rate s))
           + bonus_if_present spec_steps_bonus (steps s)
           + bonus_if_present spec_sleep_bonus (sleep_hours s)
           + bonus_if_present spec_vo2_max_bonus (vo2_max s)"
  have "0 \<le> ?b"
    using bonus_nonneg(1) [of "zero_as_absent (heart_rate s)"] bonus_nonneg(2) [of "steps s"]
      bonus_nonneg(3) [of "sleep_hours s"] bonus_nonneg(4) [of "vo2_max s"] by linarith
  then have "max 0 (min 100 (50 + ?b)) = min (50 + ?b) 100" by simp
  then show ?thesis
    by (simp add: calculate_health_score_def bind_err_def heart_rate_contribution_sync
          steps_contribution_sync sleep_contribution_sync vo2_max_contribution_sync
          spec_score_def add.assoc)
qed

lemma calculate_health_score_never_raises:
  "\<exists>n. calculate_health_score (sync_metrics s) = Inr n \<and> 50 \<le> n \<and> n \<le> 100"
proof -
  let ?s' = "s\<lparr>heart_rate := zero_as_absent (heart_rate s)\<rparr>"
  have "0 \<le> bonus_if_present spec_heart_rate_bonus (heart_rate ?s')
           + bonus_if_present spec_steps_bonus (steps ?s')
           + bonus_if_present spec_sleep_bonus (sleep_hours ?s')
           + bonus_if_present spec_vo2_max_bonus (vo2_max ?s')"
    using bonus_nonneg(1) [of "heart_rate ?s'"] bonus_nonneg(2) [of "steps ?s'"]
      bonus_nonneg(3) [of "sleep_hours ?s'"] bonus_nonneg(4) [of "vo2_max ?s'"] by linarith
  then have "50 \<le> spec_score ?s' \<and> spec_score ?s' \<le> 100"
    unfolding spec_score_def by linarith
  then show ?thesis
    by (simp add: calculate_health_score_sync)
qed

text \<open>
  C3, as the code has it. For every snapshot, the score of the stored metrics is base 50
  plus the table's bonus of every metric that is present, a heart rate of 0 counting as
  absent, clamped to the range 0 to 100. The snapshot with every field absent scores 50,
  and the top-tier snapshot (steps 10000, heart rate 55, sleep 8, VO2max 50) scores 100.
\<close>

theorem health_score_follows_table:
  "calculate_health_score (sync_metrics s) =
     Inr (spec_score (s\<lparr>heart_rate := zero_as_absent (heart_rate s)\<rparr>))
   \<and> calculate_health_score (sync_metrics
        \<lparr>heart_rate = None, steps = None, active_calories = None, vo2_max = None,
         sleep_hours = None\<rparr>) = Inr 50
   \<and> calculate_health_score (sync_metrics
        \<lparr>heart_rate = Some 55, steps = Some 10000, active_calories = ac,
         vo2_max = Some (FVal 50), sleep_hours = Some (FVal 8)\<rparr>) = Inr 100"
  by (simp add: calculate_health_score_sync spec_score_def bonus_if_present_def
        zero_as_absent_def spec_heart_rate_bonus_def spec_steps_bonus_def
        spec_sleep_bonus_def spec_vo2_max_bonus_def)

theorem health_score_follows_table_witness:
  "calculate_health_score (sync_metrics
     \<lparr>heart_rate = Some 72, steps = Some 8000, active_calories = Some 300,
      vo2_max = Some (FVal 42), sleep_hours = Some (FVal (13 / 2))\<rparr>) = Inr 80"
  using health_score_follows_table
    [of "\<lparr>heart_rate = Some 72, steps = Some 8000, active_calories = Some 300,
          vo2_max = Some (FVal 42), sleep_hours = Some (FVal (13 / 2))\<rparr>"]
  by (simp add: spec_score_def bonus_if_present_def zero_as_absent_def
        spec_heart_rate_bonus_def spec_steps_bonus_def spec_sleep_bonus_def
        spec_vo2_max_bonus_def)

text \<open>
  C3, as stated, fails at a heart rate of 0: the table gives a present heart rate below
  60 a bonus of 15, so the stated score is 65, and the code returns 50.
\<close>

theorem health_score_zero_heart_rate_counterexample:
  "calculate_health_score (sync_metrics
     \<lparr>heart_rate = Some 0, steps = None, active_calories = None, vo2_max = None,
      sleep_hours = None\<rparr>) = Inr 50
   \<and> spec_score
       \<lparr>heart_rate = Some 0, steps = None, active_calories = None, vo2_max = None,
        sleep_hours = None\<rparr> = 65"
  by (simp add: calculate_health_score_sync spec_score_def bonus_if_present_def
        zero_as_absent_def spec_heart_rate_bonus_def)

text \<open>
  C10. For every snapshot, a heart rate, a step count, a sleep duration or a VO2max that
  is present and equal to zero gives the score that the snapshot gives with that field
  absent, and its block of \<^verbatim>\<open>calculate_health_score\<close> adds nothing to the running score.
\<close>

theorem zero_metric_scores_as_absent:
  "calculate_health_score (sync_metrics (s\<lparr>heart_rate := Some 0\<rparr>)) =
     calculate_health_score (sync_metrics (s\<lparr>heart_rate := None\<rparr>))
   \<and> calculate_health_score (sync_metrics (s\<lparr>steps := Some 0\<rparr>)) =
     calculate_health_score (sync_metrics (s\<lparr>steps := None\<rparr>))
   \<and> calculate_health_score (sync_metrics (s\<lparr>sleep_hours := Some (FVal 0)\<rparr>)) =
     calculate_health_score (sync_metrics (s\<lparr>sleep_hours := None\<rparr>))
   \<and> calculate_health_score (sync_metrics (s\<lparr>vo2_max := Some (FVal 0)\<rparr>)) =
     calculate_health_score (sync_metrics (s\<lparr>vo2_max := None\<rparr>))
   \<and> heart_rate_contribution (sync_metrics (s\<lparr>heart_rate := Some 0\<rparr>)) sc = Inr sc
   \<and> steps_contribution (sync_metrics (s\<lparr>steps := Some 0\<rparr>)) sc = Inr sc
   \<and> sleep_contribution (sync_metrics (s\<lparr>sleep_hours := Some (FVal 0)\<rparr>)) sc = Inr sc
   \<and> vo2_max_contribution (sync_metrics (s\<lparr>vo2_max := Some (FVal 0)\<rparr>)) sc = Inr sc"
  by (simp add: calculate_health_score_sync heart_rate_contribution_sync
        steps_contribution_sync sleep_contribution_sync vo2_max_contribution_sync
        spec_score_def bonus_if_present_def zero_as_absent_def spec_steps_bonus_def
        spec_sleep_bonus_def spec_vo2_max_bonus_def)

theorem zero_metric_scores_as_absent_witness:
  "calculate_health_score (sync_metrics
     \<lparr>heart_rate = Some 0, steps = Some 0, active_calories = None,
      vo2_max = Some (FVal 0), sleep_hours = Some (FVal 8)\<rparr>) = Inr 60"
  using zero_metric_scores_as_absent
    [of "\<lparr>heart_rate = Some 0, steps = Some 0, active_calories = None,
          vo2_max = Some (FVal 0), sleep_hours = Some (FVal 8)\<rparr>" 0]
  by (simp add: calculate_health_score_sync spec_score_def bonus_if_present_def
        zero_as_absent_def spec_steps_bonus_def spec_sleep_bonus_def spec_vo2_max_bonus_def)

section \<open>Properties of the training plan\<close>

lemma plan_intensity [simp]: "recommended_intensity (plan_for i m) = i"
  by (simp add: plan_for_def)

text \<open>
  With both values stored, the plan is computed and its intensity follows the two
  thresholds; the third class is named \<^verbatim>\<open>Light\<close> in the source.
\<close>

lemma generate_training_plan_present:
  assumes "heart_rate s = Some h" and "sleep_hours s = Some sl"
  shows "\<exists>p. generate_training_plan (sync_metrics s) = Inr p \<and>
           recommended_intensity p =
             (if float_ge sl 8 \<and> h < 60 then ''High''
              else if float_ge sl 7 \<and> h < 75 then ''Moderate'' else ''Light'')"
  using assms
  by (simp add: generate_training_plan_def Let_def dict_get_default_def sync_metrics_lookup
        float_field_def int_field_def py_and_def bind_err_def)

text \<open>The defaults apply to a dictionary that lacks the keys.\<close>

lemma generate_training_plan_missing_keys:
  "generate_training_plan Map.empty =
     Inr (plan_for ''Light'' ''Consider active recovery today. Your body needs rest.'')"
  by (simp add: generate_training_plan_def Let_def dict_get_default_def py_and_def bind_err_def)

text \<open>On a stored snapshot the call raises exactly when the sleep is absent, or the
  heart rate is absent and the sleep is at least 7.\<close>

lemma generate_training_plan_raises_iff:
  "generate_training_plan (sync_metrics s) = Inl TypeError \<longleftrightarrow>
     (case sleep_hours s of
        None \<Rightarrow> True
      | Some sl \<Rightarrow> heart_rate s = None \<and> float_ge sl 7)"
proof -
  have "float_ge sl 8 \<Longrightarrow> float_ge sl 7" for sl
    by (cases sl) auto
  then show ?thesis
    by (cases "sleep_hours s"; cases "heart_rate s")
       (auto simp add: generate_training_plan_def Let_def dict_get_default_def sync_metrics_lookup
          float_field_def int_field_def py_and_def bind_err_def)
qed

lemma generate_training_plan_examples:
  "map_sum id recommended_intensity (generate_training_plan (sync_metrics
     \<lparr>heart_rate = Some 55, steps = None, active_calories = None, vo2_max = None,
      sleep_hours = Some (FVal 8)\<rparr>)) = Inr ''High''"
  "map_sum id recommended_intensity (generate_training_plan (sync_metrics
     \<lparr>heart_rate = Some 80, steps = None, active_calories = None, vo2_max = None,
      sleep_hours = Some (FVal 6)\<rparr>)) = Inr ''Light''"
  "map_sum id recommended_intensity (generate_training_plan (sync_metrics
     \<lparr>heart_rate = Some 70, steps = None, active_calories = None, vo2_max = None,
      sleep_hours = Some (FVal (15 / 2))\<rparr>)) = Inr ''Moderate''"
  by (simp_all add: generate_training_plan_def Let_def dict_get_default_def sync_metrics_lookup
        float_field_def int_field_def py_and_def bind_err_def)

text \<open>
  C5, at the snapshot with every field absent. The claim says that every snapshot maps
  to one of the three classes and no error is raised. The stored dictionary holds
  \<^verbatim>\<open>"sleep_hours": None\<close>, so \<^verbatim>\<open>metrics.get("sleep_hours", 0)\<close> is \<^verbatim>\<open>None\<close>, not the default,
  and \<^verbatim>\<open>None >= 8\<close> raises \<^verbatim>\<open>TypeError\<close>.
\<close>

theorem training_plan_raises_on_absent_sleep:
  "generate_training_plan (sync_metrics
     \<lparr>heart_rate = None, steps = None, active_calories = None, vo2_max = None,
      sleep_hours = None\<rparr>) = Inl TypeError"
  by (simp add: generate_training_plan_def Let_def dict_get_default_def sync_metrics_lookup
        float_field_def int_field_def py_and_def bind_err_def)

text \<open>
  C6, at the snapshot with 8 hours of sleep and no heart rate. The claim says that the
  heart rate defaults to 70 there, which classifies Moderate. The stored dictionary
  holds \<^verbatim>\<open>"heart_rate": None\<close>, so the default is not taken and \<^verbatim>\<open>None < 60\<close> raises
  \<^verbatim>\<open>TypeError\<close>.
\<close>

theorem training_plan_raises_on_absent_heart_rate:
  "generate_training_plan (sync_metrics
     \<lparr>heart_rate = None, steps = None, active_calories = None, vo2_max = None,
      sleep_hours = Some (FVal 8)\<rparr>) = Inl TypeError"
  by (simp add: generate_training_plan_def Let_def dict_get_default_def sync_metrics_lookup
        float_field_def int_field_def py_and_def bind_err_def)

section \<open>Properties of \<^verbatim>\<open>check_achievements\<close>\<close>

text \<open>The three blocks leave the keys of \<^const>\<open>to_unlock\<close> and their pending objects.\<close>

lemma three_blocks:
  assumes "sqlite_integer uid"
  shows "bind_err (if 1 \<le> bookings_count db uid
                   then unlock_if_new db uid ''first_booking'' (now_first_booking clk) ([], [])
                   else Inr ([], [])) (\<lambda>st1.
         bind_err (if 7 \<le> recent_bookings db uid (now_streak_window clk - timedelta_days 7)
                   then unlock_if_new db uid ''seven_day_streak'' (now_seven_day_streak clk) st1
                   else Inr st1) (\<lambda>st2.
         if 1 \<le> perfect_games db uid
         then unlock_if_new db uid ''perfect_game'' (now_perfect_game clk) st2
         else Inr st2)) =
       Inr (map (pending_for clk uid) (to_unlock clk db uid), to_unlock clk db uid)"
  using assms
  by (simp add: unlock_if_new_def query_existing_def bind_err_def to_unlock_def
        qualifies_def pending_for_def unlock_time_def split: option.splits)

lemma query_user_found:
  "query_user db uid = Inr (Some u) \<longleftrightarrow> sqlite_integer uid \<and> find_user db uid = Some u"
  by (simp add: query_user_def)

lemma query_existing_in_range:
  "sqlite_integer uid \<Longrightarrow> query_existing db uid key = Inr (find_unlock db uid key)"
  by (simp add: query_existing_def)

lemma to_unlock_subset:
  "set (to_unlock clk db uid) \<subseteq> {''first_booking'', ''seven_day_streak'', ''perfect_game''}"
  by (auto simp add: to_unlock_def)

lemma to_unlock_distinct: "distinct (to_unlock clk db uid)"
  by (simp add: to_unlock_def)

lemma catalog_keys:
  "k \<in> {''first_booking'', ''seven_day_streak'', ''perfect_game''} \<Longrightarrow> \<exists>a. ACHIEVEMENTS k = Some a"
  by (auto simp add: ACHIEVEMENTS_def)

lemma unlocked_achievements_total:
  "set keys \<subseteq> {''first_booking'', ''seven_day_streak'', ''perfect_game''} \<Longrightarrow>
   \<exists>items. unlocked_achievements keys = Inr items \<and> map un_key items = keys"
proof (induction keys)
  case Nil
  then show ?case by simp
next
  case (Cons k keys)
  then obtain items where items: "unlocked_achievements keys = Inr items" "map un_key items = keys"
    by auto
  from Cons.prems obtain a where "ACHIEVEMENTS k = Some a"
    using catalog_keys [of k] by auto
  with items show ?case
    by (simp add: bind_err_def unlocked_item_def)
qed

lemma check_achievements_found:
  assumes "query_user db uid = Inr (Some u)"
  shows "\<exists>items. check_achievements clk uid db =
           (Inr \<lparr>new_achievements = items, count = int (length items)\<rparr>,
            commit db (map (pending_for clk uid) (to_unlock clk db uid)))
         \<and> unlocked_achievements (to_unlock clk db uid) = Inr items
         \<and> map un_key items = to_unlock clk db uid"
proof -
  obtain items where items: "unlocked_achievements (to_unlock clk db uid) = Inr items"
      "map un_key items = to_unlock clk db uid"
    using unlocked_achievements_total [OF to_unlock_subset] by blast
  from assms have range: "sqlite_integer uid"
    by (simp add: query_user_found)
  have "check_achievements clk uid db =
          (bind_err (unlocked_achievements (to_unlock clk db uid)) (\<lambda>unlocked.
             Inr \<lparr>new_achievements = unlocked, count = int (length unlocked)\<rparr>),
           commit db (map (pending_for clk uid) (to_unlock clk db uid)))"
    using assms three_blocks [OF range, of db clk]
    by (simp add: check_achievements_def Let_def)
  with items show ?thesis
    by (simp add: bind_err_def)
qed

lemma check_achievements_missing:
  "query_user db uid = Inr None \<Longrightarrow>
   check_achievements clk uid db = (Inl (HTTPException 404 ''User not found''), db)"
  by (simp add: check_achievements_def)

lemma check_achievements_error:
  "query_user db uid = Inl e \<Longrightarrow> check_achievements clk uid db = (Inl e, db)"
  by (simp add: check_achievements_def)

lemma query_user_cases:
  "(\<exists>u. query_user db uid = Inr (Some u)) \<or> query_user db uid = Inr None \<or>
   query_user db uid = Inl OverflowError"
  by (cases "find_user db uid") (simp_all add: query_user_def)

subsection \<open>Commit and the count of rows\<close>

lemma flush_pairs:
  "map (\<lambda>ua. (ua_user_id ua, achievement_key ua)) (flush rows ps) =
   map (\<lambda>ua. (ua_user_id ua, achievement_key ua)) rows @ map (\<lambda>p. (pa_user_id p, pa_key p)) ps"
  by (induction ps arbitrary: rows) (simp_all add: insert_row_def)

lemma flush_count:
  "length (filter (is_unlock uid key) (flush rows ps)) =
   length (filter (is_unlock uid key) rows)
     + length (filter (\<lambda>p. pa_user_id p = uid \<and> pa_key p = key) ps)"
  by (induction ps arbitrary: rows) (simp_all add: insert_row_def is_unlock_def)

lemma distinct_count:
  "distinct ks \<Longrightarrow>
   length (filter (\<lambda>k. uid = uid' \<and> k = key) ks) = (if uid' = uid \<and> key \<in> set ks then 1 else 0)"
  by (induction ks) auto

lemma pending_count:
  "distinct ks \<Longrightarrow>
   length (filter (\<lambda>p. pa_user_id p = uid' \<and> pa_key p = key) (map (pending_for clk uid) ks)) =
     (if uid' = uid \<and> key \<in> set ks then 1 else 0)"
  using distinct_count [of ks uid uid' key]
  by (simp add: filter_map comp_def pending_for_def)

lemma unlock_count_commit:
  "unlock_count (commit db (map (pending_for clk uid) (to_unlock clk db uid))) uid' key =
     unlock_count db uid' key + (if uid' = uid \<and> key \<in> set (to_unlock clk db uid) then 1 else 0)"
proof -
  have "length (filter (\<lambda>p. pa_user_id p = uid' \<and> pa_key p = key)
                  (map (pending_for clk uid) (to_unlock clk db uid))) =
          (if uid' = uid \<and> key \<in> set (to_unlock clk db uid) then 1 else 0)"
    by (rule pending_count [OF to_unlock_distinct])
  then show ?thesis
    by (simp add: unlock_count_def commit_def flush_count)
qed

lemma find_unlock_None_iff:
  "find_unlock db uid key = None \<longleftrightarrow> unlock_count db uid key = 0"
  by (auto simp add: find_unlock_def unlock_count_def find_None_iff filter_empty_conv)

lemma commit_other_tables [simp]:
  "users (commit db ps) = users db"
  "bookings (commit db ps) = bookings db"
  "games (commit db ps) = games db"
  by (simp_all add: commit_def)

lemma commit_nothing [simp]: "commit db [] = db"
  by (simp add: commit_def)

lemma qualifies_cong:
  "bookings db' = bookings db \<Longrightarrow> games db' = games db \<Longrightarrow>
   qualifies clk db' uid key = qualifies clk db uid key"
  by (simp add: qualifies_def bookings_count_def recent_bookings_def perfect_games_def)

lemma qualifies_key:
  "qualifies clk db uid key \<Longrightarrow> key \<in> {''first_booking'', ''seven_day_streak'', ''perfect_game''}"
  unfolding qualifies_def by (metis insertCI)

lemma in_to_unlock_iff:
  "key \<in> set (to_unlock clk db uid) \<longleftrightarrow>
     qualifies clk db uid key \<and> unlock_count db uid key = 0"
proof -
  have "key \<in> set (to_unlock clk db uid) \<longleftrightarrow>
     key \<in> set [''first_booking'', ''seven_day_streak'', ''perfect_game''] \<and>
     (qualifies clk db uid key \<and> find_unlock db uid key = None)"
    unfolding to_unlock_def by (simp only: set_filter mem_Collect_eq)
  moreover have "set [''first_booking'', ''seven_day_streak'', ''perfect_game''] =
      {''first_booking'', ''seven_day_streak'', ''perfect_game''}"
    by (simp only: list.set)
  ultimately show ?thesis
    using qualifies_key [of clk db uid key] by (simp only: find_unlock_None_iff) blast
qed

lemma to_unlock_empty_iff:
  "to_unlock clk db uid = [] \<longleftrightarrow> (\<forall>key. qualifies clk db uid key \<longrightarrow> 0 < unlock_count db uid key)"
proof -
  have "to_unlock clk db uid = [] \<longleftrightarrow> (\<forall>key. key \<notin> set (to_unlock clk db uid))"
    by (cases "to_unlock clk db uid") auto
  then show ?thesis
    by (simp only: in_to_unlock_iff) auto
qed

text \<open>
  C1. For a user that exists, a key whose condition holds and that has at most one row:
  when the second call sees the same conditions as the first, the first call returns the
  key as newly unlocked exactly when it had no row, the second call returns an empty
  list, and afterwards the key has exactly one row.
\<close>

theorem check_achievements_idempotent:
  assumes user: "query_user db uid = Inr (Some u)"
    and same: "\<forall>k. qualifies clk2 db uid k = qualifies clk1 db uid k"
    and holds: "qualifies clk1 db uid key"
    and once: "unlock_count db uid key \<le> 1"
  shows "(\<exists>r1. fst (check_achievements clk1 uid db) = Inr r1)
       \<and> (key \<in> set (new_keys (fst (check_achievements clk1 uid db)))
            \<longleftrightarrow> unlock_count db uid key = 0)
       \<and> fst (check_achievements clk2 uid (snd (check_achievements clk1 uid db))) =
            Inr \<lparr>new_achievements = [], count = 0\<rparr>
       \<and> unlock_count
            (snd (check_achievements clk2 uid (snd (check_achievements clk1 uid db)))) uid key = 1"
proof -
  define T where "T = to_unlock clk1 db uid"
  define db1 where "db1 = commit db (map (pending_for clk1 uid) T)"
  note u = user
  from check_achievements_found [OF u, of clk1] obtain items1 where
    first: "check_achievements clk1 uid db =
              (Inr \<lparr>new_achievements = items1, count = int (length items1)\<rparr>, db1)"
    and keys1: "map un_key items1 = T"
    unfolding T_def db1_def by blast
  have tables: "users db1 = users db" "bookings db1 = bookings db" "games db1 = games db"
    unfolding db1_def by (rule commit_other_tables)+
  have u1: "query_user db1 uid = Inr (Some u)"
    using u unfolding query_user_def find_user_def tables .
  have count1: "unlock_count db1 uid k = unlock_count db uid k + (if k \<in> set T then 1 else 0)" for k
    unfolding db1_def T_def using unlock_count_commit [of db clk1 uid uid k] by simp
  have inT: "k \<in> set T \<longleftrightarrow> qualifies clk1 db uid k \<and> unlock_count db uid k = 0" for k
    unfolding T_def by (rule in_to_unlock_iff)
  have q1: "qualifies clk2 db1 uid k = qualifies clk1 db uid k" for k
    using same qualifies_cong [OF tables(2) tables(3), of clk2 uid k] by simp
  have "to_unlock clk2 db1 uid = []"
    unfolding to_unlock_empty_iff
  proof (intro allI impI)
    fix k assume "qualifies clk2 db1 uid k"
    then have "qualifies clk1 db uid k" unfolding q1 .
    then show "0 < unlock_count db1 uid k"
      unfolding count1 inT by simp
  qed
  with check_achievements_found [OF u1, of clk2] have
    second: "check_achievements clk2 uid db1 = (Inr \<lparr>new_achievements = [], count = 0\<rparr>, db1)"
    by (simp add: commit_nothing)
  have after: "unlock_count db1 uid key = 1"
    unfolding count1 inT using holds once by simp
  have new1: "key \<in> set (new_keys (fst (check_achievements clk1 uid db)))
                   \<longleftrightarrow> unlock_count db uid key = 0"
    unfolding first new_keys_def using holds inT [of key] by (simp add: keys1)
  show ?thesis
    unfolding new1 unfolding first snd_conv second fst_conv using after by simp
qed

theorem check_achievements_idempotent_witness:
  "query_user
     \<lparr>users = [\<lparr>u_id = 1\<rparr>],
      bookings = [\<lparr>booking_user_id = 1, booking_created_at = Some 0\<rparr>],
      games = [], user_achievements = []\<rparr> 1 = Inr (Some \<lparr>u_id = 1\<rparr>)
   \<and> ''first_booking'' \<in> set (new_keys (fst (check_achievements
        \<lparr>now_first_booking = 10, now_streak_window = 10, now_seven_day_streak = 10,
         now_perfect_game = 10\<rparr> 1
        \<lparr>users = [\<lparr>u_id = 1\<rparr>],
         bookings = [\<lparr>booking_user_id = 1, booking_created_at = Some 0\<rparr>],
         games = [], user_achievements = []\<rparr>)))
   \<and> fst (check_achievements
        \<lparr>now_first_booking = 20, now_streak_window = 20, now_seven_day_streak = 20,
         now_perfect_game = 20\<rparr> 1
        (snd (check_achievements
           \<lparr>now_first_booking = 10, now_streak_window = 10, now_seven_day_streak = 10,
            now_perfect_game = 10\<rparr> 1
           \<lparr>users = [\<lparr>u_id = 1\<rparr>],
            bookings = [\<lparr>booking_user_id = 1, booking_created_at = Some 0\<rparr>],
            games = [], user_achievements = []\<rparr>))) =
       Inr \<lparr>new_achievements = [], count = 0\<rparr>"
proof -
  let ?db = "\<lparr>users = [\<lparr>u_id = 1\<rparr>],
      bookings = [\<lparr>booking_user_id = 1, booking_created_at = Some 0\<rparr>],
      games = [], user_achievements = []\<rparr>"
  let ?c1 = "\<lparr>now_first_booking = 10, now_streak_window = 10, now_seven_day_streak = 10,
         now_perfect_game = 10\<rparr>"
  let ?c2 = "\<lparr>now_first_booking = 20, now_streak_window = 20, now_seven_day_streak = 20,
         now_perfect_game = 20\<rparr>"
  have h1: "query_user ?db 1 = Inr (Some \<lparr>u_id = 1\<rparr>)"
    by (simp add: query_user_def find_user_def sqlite_integer_def)
  have h2: "\<forall>k. qualifies ?c2 ?db 1 k = qualifies ?c1 ?db 1 k"
    by (simp add: qualifies_def recent_bookings_def timedelta_days_def)
  have h3: "qualifies ?c1 ?db 1 ''first_booking''"
    by (simp add: qualifies_def bookings_count_def)
  have h0: "unlock_count ?db 1 ''first_booking'' = 0"
    by (simp add: unlock_count_def)
  then have h4: "unlock_count ?db 1 ''first_booking'' \<le> 1"
    by simp
  from check_achievements_idempotent [OF h1 h2 h3 h4] h0 h1 show ?thesis
    by simp
qed

text \<open>
  C9, as the code has it. For a user id that the store can bind, a 64-bit signed
  integer, the call fails with the 404 \<^verbatim>\<open>User not found\<close> exactly when no row of the
  user table has the id, and it raises nothing else, whatever the bookings and games
  are. For an id outside that range the user query raises \<^verbatim>\<open>OverflowError\<close>. Whenever
  the call fails, it leaves the database as it was.
\<close>

theorem check_achievements_user_not_found:
  "(sqlite_integer uid \<longrightarrow>
      (fst (check_achievements clk uid db) = Inl (HTTPException 404 ''User not found'')
         \<longleftrightarrow> (\<forall>u \<in> set (users db). u_id u \<noteq> uid))
      \<and> (\<forall>e. fst (check_achievements clk uid db) = Inl e \<longrightarrow>
            e = HTTPException 404 ''User not found''))
   \<and> (\<not> sqlite_integer uid \<longrightarrow> fst (check_achievements clk uid db) = Inl OverflowError)
   \<and> (\<forall>e. fst (check_achievements clk uid db) = Inl e \<longrightarrow>
         snd (check_achievements clk uid db) = db)"
proof -
  have missing: "find_user db uid = None \<longleftrightarrow> (\<forall>u \<in> set (users db). u_id u \<noteq> uid)"
    by (auto simp add: find_user_def find_None_iff)
  from query_user_cases [of db uid] show ?thesis
  proof (elim disjE exE)
    fix u assume found: "query_user db uid = Inr (Some u)"
    from check_achievements_found [OF found, of clk] obtain items where
      "check_achievements clk uid db =
         (Inr \<lparr>new_achievements = items, count = int (length items)\<rparr>,
          commit db (map (pending_for clk uid) (to_unlock clk db uid)))"
      by blast
    moreover from found have "sqlite_integer uid" "find_user db uid \<noteq> None"
      by (simp_all add: query_user_found)
    ultimately show ?thesis
      using missing by simp
  next
    assume none: "query_user db uid = Inr None"
    then have "sqlite_integer uid" "find_user db uid = None"
      by (simp_all add: query_user_def split: if_splits)
    then show ?thesis
      using missing by (simp add: check_achievements_missing [OF none])
  next
    assume over: "query_user db uid = Inl OverflowError"
    then have "\<not> sqlite_integer uid"
      by (simp add: query_user_def split: if_splits)
    then show ?thesis
      by (simp add: check_achievements_error [OF over])
  qed
qed

theorem check_achievements_user_not_found_witness:
  "sqlite_integer 2
   \<and> fst (check_achievements
        \<lparr>now_first_booking = 10, now_streak_window = 10, now_seven_day_streak = 10,
         now_perfect_game = 10\<rparr> 2
        \<lparr>users = [\<lparr>u_id = 1\<rparr>],
         bookings = [\<lparr>booking_user_id = 2, booking_created_at = Some 0\<rparr>],
         games = [], user_achievements = []\<rparr>) = Inl (HTTPException 404 ''User not found'')
   \<and> snd (check_achievements
        \<lparr>now_first_booking = 10, now_streak_window = 10, now_seven_day_streak = 10,
         now_perfect_game = 10\<rparr> 2
        \<lparr>users = [\<lparr>u_id = 1\<rparr>],
         bookings = [\<lparr>booking_user_id = 2, booking_created_at = Some 0\<rparr>],
         games = [], user_achievements = []\<rparr>) =
        \<lparr>users = [\<lparr>u_id = 1\<rparr>],
         bookings = [\<lparr>booking_user_id = 2, booking_created_at = Some 0\<rparr>],
         games = [], user_achievements = []\<rparr>"
proof -
  let ?db = "\<lparr>users = [\<lparr>u_id = 1\<rparr>],
         bookings = [\<lparr>booking_user_id = 2, booking_created_at = Some 0\<rparr>],
         games = [], user_achievements = []\<rparr>"
  let ?c = "\<lparr>now_first_booking = 10, now_streak_window = 10, now_seven_day_streak = 10,
         now_perfect_game = 10\<rparr>"
  have r: "sqlite_integer 2"
    by (simp add: sqlite_integer_def)
  have h: "\<forall>u \<in> set (users ?db). u_id u \<noteq> 2"
    by simp
  from check_achievements_user_not_found [of 2 ?c ?db] r h show ?thesis
    by blast
qed

text \<open>
  C9, as stated, fails at the user id \<open>2 ^ 63\<close>: no user has it, and the call fails with
  \<^verbatim>\<open>OverflowError\<close>, not with the 404.
\<close>

theorem check_achievements_overflow_counterexample:
  "find_user
     \<lparr>users = [\<lparr>u_id = 1\<rparr>],
      bookings = [\<lparr>booking_user_id = 1, booking_created_at = Some 0\<rparr>],
      games = [], user_achievements = []\<rparr> 9223372036854775808 = None
   \<and> fst (check_achievements
        \<lparr>now_first_booking = 10, now_streak_window = 10, now_seven_day_streak = 10,
         now_perfect_game = 10\<rparr> 9223372036854775808
        \<lparr>users = [\<lparr>u_id = 1\<rparr>],
         bookings = [\<lparr>booking_user_id = 1, booking_created_at = Some 0\<rparr>],
         games = [], user_achievements = []\<rparr>) = Inl OverflowError"
  by (simp add: check_achievements_def query_user_def find_user_def sqlite_integer_def)

lemma qualifies_simps:
  "qualifies clk db uid ''first_booking'' \<longleftrightarrow> 1 \<le> bookings_count db uid"
  "qualifies clk db uid ''seven_day_streak'' \<longleftrightarrow>
     7 \<le> recent_bookings db uid (now_streak_window clk - timedelta_days 7)"
  "qualifies clk db uid ''perfect_game'' \<longleftrightarrow> 1 \<le> perfect_games db uid"
  by (simp_all add: qualifies_def)

lemma new_keys_found:
  assumes u: "query_user db uid = Inr (Some u)"
  shows "new_keys (fst (check_achievements clk uid db)) = to_unlock clk db uid"
proof -
  from check_achievements_found [OF u, of clk] show ?thesis
    by (auto simp add: new_keys_def)
qed

lemma unlocked_first_booking:
  "\<exists>item. unlocked_achievements [''first_booking''] = Inr [item] \<and>
          un_key item = ''first_booking'' \<and> un_points item = 50"
  by (simp add: ACHIEVEMENTS_def bind_err_def unlocked_item_def)

text \<open>
  C4, as the code has it. For a user that exists, each of the three keys is newly
  unlocked exactly when its own condition holds and the key has no row yet, nothing
  else is ever unlocked, and a user with one booking, none in the window, no perfect
  game and no row receives exactly \<^verbatim>\<open>first_booking\<close>, with 50 points.
\<close>

theorem check_achievements_unlocks:
  assumes "query_user db uid = Inr (Some u)"
  shows "(''first_booking'' \<in> set (new_keys (fst (check_achievements clk uid db))) \<longleftrightarrow>
            1 \<le> bookings_count db uid \<and> query_existing db uid ''first_booking'' = Inr None)
       \<and> (''seven_day_streak'' \<in> set (new_keys (fst (check_achievements clk uid db))) \<longleftrightarrow>
            7 \<le> recent_bookings db uid (now_streak_window clk - timedelta_days 7) \<and>
            query_existing db uid ''seven_day_streak'' = Inr None)
       \<and> (''perfect_game'' \<in> set (new_keys (fst (check_achievements clk uid db))) \<longleftrightarrow>
            1 \<le> perfect_games db uid \<and> query_existing db uid ''perfect_game'' = Inr None)
       \<and> set (new_keys (fst (check_achievements clk uid db)))
            \<subseteq> {''first_booking'', ''seven_day_streak'', ''perfect_game''}
       \<and> (bookings_count db uid = 1 \<and>
          recent_bookings db uid (now_streak_window clk - timedelta_days 7) = 0 \<and>
          perfect_games db uid = 0 \<and> (\<forall>key. query_existing db uid key = Inr None) \<longrightarrow>
          (\<exists>item. fst (check_achievements clk uid db) =
                     Inr \<lparr>new_achievements = [item], count = 1\<rparr> \<and>
                   un_key item = ''first_booking'' \<and> un_points item = 50))"
proof -
  have keys: "new_keys (fst (check_achievements clk uid db)) = to_unlock clk db uid"
    using assms by (rule new_keys_found)
  from assms have range: "sqlite_integer uid"
    by (simp add: query_user_found)
  have mem: "k \<in> set (to_unlock clk db uid) \<longleftrightarrow>
               qualifies clk db uid k \<and> query_existing db uid k = Inr None" for k
    unfolding in_to_unlock_iff query_existing_in_range [OF range]
    by (simp add: find_unlock_None_iff)
  have e2e: "\<exists>item. fst (check_achievements clk uid db) =
                     Inr \<lparr>new_achievements = [item], count = 1\<rparr> \<and>
                   un_key item = ''first_booking'' \<and> un_points item = 50"
    if facts: "bookings_count db uid = 1"
        "recent_bookings db uid (now_streak_window clk - timedelta_days 7) = 0"
        "perfect_games db uid = 0" "\<forall>key. query_existing db uid key = Inr None"
  proof -
    from facts(4) have "find_unlock db uid key = None" for key
      unfolding query_existing_in_range [OF range] by simp
    then have T: "to_unlock clk db uid = [''first_booking'']"
      unfolding to_unlock_def using facts by (simp add: qualifies_simps)
    from check_achievements_found [OF assms, of clk] obtain items where
      res: "check_achievements clk uid db =
         (Inr \<lparr>new_achievements = items, count = int (length items)\<rparr>,
          commit db (map (pending_for clk uid) (to_unlock clk db uid)))"
      and items: "unlocked_achievements (to_unlock clk db uid) = Inr items"
      by blast
    from unlocked_first_booking obtain item where
      item: "unlocked_achievements [''first_booking''] = Inr [item]"
        "un_key item = ''first_booking''" "un_points item = 50"
      by blast
    from items T item(1) have "items = [item]" by simp
    with res item show ?thesis by simp
  qed
  show ?thesis
    unfolding keys mem qualifies_simps using to_unlock_subset [of clk db uid] e2e by blast
qed

theorem check_achievements_unlocks_witness:
  "fst (check_achievements
        \<lparr>now_first_booking = 700000000000, now_streak_window = 700000000000,
         now_seven_day_streak = 700000000000, now_perfect_game = 700000000000\<rparr> 1
        \<lparr>users = [\<lparr>u_id = 1\<rparr>],
         bookings = [\<lparr>booking_user_id = 1, booking_created_at = Some 0\<rparr>],
         games = [\<lparr>game_user_id = 1, game_score = 99\<rparr>], user_achievements = []\<rparr>) =
     Inr \<lparr>new_achievements =
            [\<lparr>un_key = ''first_booking'', un_name = ''First Steps'',
              un_description = ''Booked your first training session'', un_points = 50,
              un_icon = [CHR 0xF0, CHR 0x9F, CHR 0x8F, CHR 0x86],
              un_viral_text = ''I just booked my first run via GIA! ''
                                @ [CHR 0xF0, CHR 0x9F, CHR 0x9A, CHR 0x80],
              un_reward = None\<rparr>],
          count = 1\<rparr>"
proof -
  let ?db = "\<lparr>users = [\<lparr>u_id = 1\<rparr>],
         bookings = [\<lparr>booking_user_id = 1, booking_created_at = Some 0\<rparr>],
         games = [\<lparr>game_user_id = 1, game_score = 99\<rparr>], user_achievements = []\<rparr>"
  let ?c = "\<lparr>now_first_booking = 700000000000, now_streak_window = 700000000000,
         now_seven_day_streak = 700000000000, now_perfect_game = 700000000000\<rparr>"
  have h: "query_user ?db 1 = Inr (Some \<lparr>u_id = 1\<rparr>)"
    by (simp add: query_user_def find_user_def sqlite_integer_def)
  have f: "bookings_count ?db 1 = 1"
      "recent_bookings ?db 1 (now_streak_window ?c - timedelta_days 7) = 0"
      "perfect_games ?db 1 = 0" "\<forall>key. query_existing ?db 1 key = Inr None"
    by (simp_all add: bookings_count_def recent_bookings_def perfect_games_def
          query_existing_def find_unlock_def sqlite_integer_def timedelta_days_def)
  from check_achievements_unlocks [OF h, of ?c] f obtain item where
    item: "fst (check_achievements ?c 1 ?db) = Inr \<lparr>new_achievements = [item], count = 1\<rparr>"
    by blast
  have "fst (check_achievements ?c 1 ?db) =
     Inr \<lparr>new_achievements =
            [\<lparr>un_key = ''first_booking'', un_name = ''First Steps'',
              un_description = ''Booked your first training session'', un_points = 50,
              un_icon = [CHR 0xF0, CHR 0x9F, CHR 0x8F, CHR 0x86],
              un_viral_text = ''I just booked my first run via GIA! ''
                                @ [CHR 0xF0, CHR 0x9F, CHR 0x9A, CHR 0x80],
              un_reward = None\<rparr>],
          count = 1\<rparr>"
    by (simp add: check_achievements_def query_user_def find_user_def sqlite_integer_def
          bookings_count_def recent_bookings_def perfect_games_def timedelta_days_def
          unlock_if_new_def query_existing_def find_unlock_def Let_def bind_err_def
          ACHIEVEMENTS_def unlocked_item_def)
  with item show ?thesis by simp
qed

text \<open>
  C4, as stated, fails for a user who has a booking and already holds
  \<^verbatim>\<open>first_booking\<close>: the count is 1 and the call does not unlock the key.
\<close>

theorem check_achievements_prior_unlock_counterexample:
  "1 \<le> bookings_count
        \<lparr>users = [\<lparr>u_id = 1\<rparr>],
         bookings = [\<lparr>booking_user_id = 1, booking_created_at = Some 0\<rparr>],
         games = [],
         user_achievements =
           [\<lparr>ua_id = 1, ua_user_id = 1, achievement_key = ''first_booking'',
             unlocked_at = Some 5, shared = False, shared_platform = None,
             shared_at = None\<rparr>]\<rparr> 1
   \<and> fst (check_achievements
        \<lparr>now_first_booking = 10, now_streak_window = 10, now_seven_day_streak = 10,
         now_perfect_game = 10\<rparr> 1
        \<lparr>users = [\<lparr>u_id = 1\<rparr>],
         bookings = [\<lparr>booking_user_id = 1, booking_created_at = Some 0\<rparr>],
         games = [],
         user_achievements =
           [\<lparr>ua_id = 1, ua_user_id = 1, achievement_key = ''first_booking'',
             unlocked_at = Some 5, shared = False, shared_platform = None,
             shared_at = None\<rparr>]\<rparr>) = Inr \<lparr>new_achievements = [], count = 0\<rparr>"
  by (simp add: check_achievements_def query_user_def find_user_def sqlite_integer_def
        bookings_count_def recent_bookings_def perfect_games_def timedelta_days_def
        unlock_if_new_def query_existing_def find_unlock_def is_unlock_def Let_def
        bind_err_def commit_def)

section \<open>The ledger invariant\<close>

lemma distinct_map_filter_le1:
  "distinct (map f xs) \<longleftrightarrow> (\<forall>y. length (filter (\<lambda>x. f x = y) xs) \<le> 1)"
proof (induction xs)
  case Nil
  then show ?case by simp
next
  case (Cons x xs)
  have none: "f x \<notin> f ` set xs \<longleftrightarrow> length (filter (\<lambda>z. f z = f x) xs) = 0"
    unfolding length_0_conv filter_empty_conv image_iff by metis
  show ?case
  proof
    assume d: "distinct (map f (x # xs))"
    then have "\<forall>y. length (filter (\<lambda>x. f x = y) xs) \<le> 1"
      using Cons.IH by simp
    moreover from d have "length (filter (\<lambda>z. f z = f x) xs) = 0"
      using none by simp
    ultimately show "\<forall>y. length (filter (\<lambda>x. f x = y) (x # xs)) \<le> 1"
      by auto
  next
    assume a: "\<forall>y. length (filter (\<lambda>z. f z = y) (x # xs)) \<le> 1"
    have "length (filter (\<lambda>z. f z = y) xs) \<le> 1" for y
      using a [rule_format, of y] by (simp split: if_splits)
    then have "distinct (map f xs)"
      using Cons.IH by simp
    moreover have "length (filter (\<lambda>z. f z = f x) xs) = 0"
      using a [rule_format, of "f x"] by simp
    ultimately show "distinct (map f (x # xs))"
      using none by simp
  qed
qed

lemma ledger_inv_count:
  "ledger_inv db \<longleftrightarrow> (\<forall>uid key. unlock_count db uid key \<le> 1)"
proof -
  have "is_unlock uid key = (\<lambda>ua. (ua_user_id ua, achievement_key ua) = (uid, key))" for uid key
    by (auto simp add: is_unlock_def)
  then show ?thesis
    unfolding ledger_inv_def unlock_count_def distinct_map_filter_le1 by simp
qed

lemma ledger_inv_commit:
  assumes "ledger_inv db"
  shows "ledger_inv (commit db (map (pending_for clk uid) (to_unlock clk db uid)))"
  unfolding ledger_inv_count
proof (intro allI)
  fix uid' key
  have "unlock_count db uid' key \<le> 1"
    using assms unfolding ledger_inv_count by blast
  then show "unlock_count (commit db (map (pending_for clk uid) (to_unlock clk db uid))) uid' key \<le> 1"
    unfolding unlock_count_commit in_to_unlock_iff by auto
qed

lemma ledger_inv_check:
  assumes "ledger_inv db"
  shows "ledger_inv (snd (check_achievements clk uid db))"
  using query_user_cases [of db uid]
proof (elim disjE exE)
  fix u assume found: "query_user db uid = Inr (Some u)"
  from check_achievements_found [OF found, of clk] obtain items where
    "check_achievements clk uid db =
       (Inr \<lparr>new_achievements = items, count = int (length items)\<rparr>,
        commit db (map (pending_for clk uid) (to_unlock clk db uid)))"
    by blast
  then show ?thesis
    using ledger_inv_commit [OF assms, of clk uid] by simp
next
  assume "query_user db uid = Inr None"
  then show ?thesis using assms by (simp add: check_achievements_missing)
next
  assume "query_user db uid = Inl OverflowError"
  then show ?thesis using assms by (simp add: check_achievements_error)
qed

lemma update_first_map:
  "(\<And>x. g (f x) = g x) \<Longrightarrow> map g (update_first P f xs) = map g xs"
  by (induction xs) simp_all

lemma share_rows:
  "user_achievements (snd (share_achievement now uid key platform db)) =
     (case query_existing db uid key of
        Inr (Some ua) \<Rightarrow> update_first (is_unlock uid key) (mark_shared platform now)
                           (user_achievements db)
      | _ \<Rightarrow> user_achievements db)"
  by (simp add: share_achievement_def Let_def split: option.splits sum.splits)

lemma share_pairs:
  "map (\<lambda>ua. (ua_user_id ua, achievement_key ua))
     (user_achievements (snd (share_achievement now uid key platform db))) =
   map (\<lambda>ua. (ua_user_id ua, achievement_key ua)) (user_achievements db)"
  unfolding share_rows
  by (simp add: update_first_map mark_shared_def split: option.splits sum.splits)

lemma ledger_inv_share:
  "ledger_inv db \<Longrightarrow> ledger_inv (snd (share_achievement now uid key platform db))"
  unfolding ledger_inv_def share_pairs .

lemma listing_unchanged: "snd (get_user_achievements uid db) = db"
  by (simp add: get_user_achievements_def)

lemma reachable_ledger_inv: "reachable db \<Longrightarrow> ledger_inv db"
proof (induction rule: reachable.induct)
  case (initial db)
  then show ?case by (simp add: ledger_inv_def)
next
  case (check db clock user_id)
  then show ?case by (simp add: ledger_inv_check)
next
  case (share db now user_id key platform)
  then show ?case by (simp add: ledger_inv_share)
next
  case (listing db user_id)
  then show ?case by (simp add: listing_unchanged)
next
  case (other_tables db us bs gs)
  then show ?case by (simp add: ledger_inv_def)
qed

text \<open>
  C2. Every ledger that the endpoints can produce from an empty one has at most one row
  for each user and key, and each of the three operations keeps it so: a call of
  \<^verbatim>\<open>check_achievements\<close> or \<^verbatim>\<open>share_achievement\<close> on a ledger with the invariant leaves a
  ledger with the invariant, and the listing leaves the database as it is.
\<close>

theorem ledger_at_most_one_unlock:
  "(reachable db \<longrightarrow> ledger_inv db)
   \<and> (ledger_inv db \<longleftrightarrow> (\<forall>uid key. unlock_count db uid key \<le> 1))
   \<and> (ledger_inv db \<longrightarrow>
        ledger_inv (snd (check_achievements clk uid1 db)) \<and>
        ledger_inv (snd (share_achievement now uid2 key platform db)) \<and>
        snd (get_user_achievements uid3 db) = db)"
  using reachable_ledger_inv [of db] ledger_inv_count [of db] ledger_inv_check [of db clk uid1]
    ledger_inv_share [of db now uid2 key platform] listing_unchanged [of uid3 db]
  by blast

theorem ledger_at_most_one_unlock_witness:
  "unlock_count
     (snd (check_achievements
        \<lparr>now_first_booking = 20, now_streak_window = 20, now_seven_day_streak = 20,
         now_perfect_game = 20\<rparr> 1
        (snd (check_achievements
           \<lparr>now_first_booking = 10, now_streak_window = 10, now_seven_day_streak = 10,
            now_perfect_game = 10\<rparr> 1
           \<lparr>users = [\<lparr>u_id = 1\<rparr>],
            bookings = [\<lparr>booking_user_id = 1, booking_created_at = Some 0\<rparr>],
            games = [], user_achievements = []\<rparr>))))
     1 ''first_booking'' \<le> 1"
proof -
  let ?db = "\<lparr>users = [\<lparr>u_id = 1\<rparr>],
            bookings = [\<lparr>booking_user_id = 1, booking_created_at = Some 0\<rparr>],
            games = [], user_achievements = []\<rparr>"
  let ?c1 = "\<lparr>now_first_booking = 10, now_streak_window = 10, now_seven_day_streak = 10,
            now_perfect_game = 10\<rparr>"
  let ?c2 = "\<lparr>now_first_booking = 20, now_streak_window = 20, now_seven_day_streak = 20,
         now_perfect_game = 20\<rparr>"
  have "reachable ?db"
    by (rule reachable.initial) simp
  then have r: "reachable (snd (check_achievements ?c2 1 (snd (check_achievements ?c1 1 ?db))))"
    by (intro reachable.check)
  from ledger_at_most_one_unlock
    [of "snd (check_achievements ?c2 1 (snd (check_achievements ?c1 1 ?db)))"] r
  show ?thesis by blast
qed

section \<open>Properties of \<^verbatim>\<open>share_achievement\<close>\<close>

lemma find_update_first:
  "(\<And>x. P (f x) = P x) \<Longrightarrow> find P (update_first P f xs) = map_option f (find P xs)"
  by (induction xs) simp_all

lemma update_first_others:
  "(\<And>x. P (f x) = P x) \<Longrightarrow>
   filter (\<lambda>x. \<not> P x) (update_first P f xs) = filter (\<lambda>x. \<not> P x) xs"
  by (induction xs) simp_all

lemma update_first_count:
  "(\<And>x. P (f x) = P x) \<Longrightarrow> length (filter P (update_first P f xs)) = length (filter P xs)"
  by (induction xs) simp_all

lemma is_unlock_mark_shared [simp]:
  "is_unlock uid key (mark_shared platform now ua) = is_unlock uid key ua"
  by (simp add: is_unlock_def mark_shared_def)

lemma flush_keys:
  "set (map achievement_key (flush rows ps)) =
     set (map achievement_key rows) \<union> set (map pa_key ps)"
  by (induction ps arbitrary: rows) (auto simp add: insert_row_def)

text \<open>Every row of a reachable ledger has one of the three keys that
  \<^verbatim>\<open>check_achievements\<close> writes.\<close>

lemma reachable_keys:
  "reachable db \<Longrightarrow>
   set (map achievement_key (user_achievements db))
     \<subseteq> {''first_booking'', ''seven_day_streak'', ''perfect_game''}"
proof (induction rule: reachable.induct)
  case (initial db)
  then show ?case by simp
next
  case (check db clock user_id)
  show ?case
    using query_user_cases [of db user_id]
  proof (elim disjE exE)
    assume "query_user db user_id = Inr None"
    then show ?thesis using check.IH by (simp add: check_achievements_missing)
  next
    assume "query_user db user_id = Inl OverflowError"
    then show ?thesis using check.IH by (simp add: check_achievements_error)
  next
    fix u assume found: "query_user db user_id = Inr (Some u)"
    from check_achievements_found [OF found, of clock] obtain items where
      res: "check_achievements clock user_id db =
         (Inr \<lparr>new_achievements = items, count = int (length items)\<rparr>,
          commit db (map (pending_for clock user_id) (to_unlock clock db user_id)))"
      by blast
    have "set (map pa_key (map (pending_for clock user_id) (to_unlock clock db user_id)))
            = set (to_unlock clock db user_id)"
      by (simp add: pending_for_def comp_def)
    moreover have "user_achievements (commit db ps) = flush (user_achievements db) ps" for ps
      by (simp add: commit_def)
    ultimately show ?thesis
      unfolding res snd_conv
      using check.IH to_unlock_subset [of clock db user_id]
      by (simp only: flush_keys) blast
  qed
next
  case (share db now user_id key platform)
  have "map achievement_key (user_achievements (snd (share_achievement now user_id key platform db)))
          = map achievement_key (user_achievements db)"
    unfolding share_rows
    by (simp add: update_first_map mark_shared_def split: option.splits sum.splits)
  then show ?case using share.IH by simp
next
  case (listing db user_id)
  then show ?case by (simp add: listing_unchanged)
next
  case (other_tables db us bs gs)
  then show ?case by simp
qed

lemma reachable_existing_in_catalog:
  assumes "reachable db" and "find_unlock db uid key = Some ua"
  shows "\<exists>a. ACHIEVEMENTS key = Some a"
proof -
  from assms(2) have "ua \<in> set (user_achievements db)" "achievement_key ua = key"
    by (auto simp add: find_unlock_def find_Some_iff is_unlock_def)
  then have "key \<in> set (map achievement_key (user_achievements db))"
    by auto
  with reachable_keys [OF assms(1)] have
    "key \<in> {''first_booking'', ''seven_day_streak'', ''perfect_game''}"
    by blast
  then show ?thesis by (rule catalog_keys)
qed

lemma query_existing_found:
  "query_existing db uid key = Inr (Some ua) \<longleftrightarrow>
     sqlite_integer uid \<and> find_unlock db uid key = Some ua"
  by (simp add: query_existing_def)

lemma share_missing:
  "sqlite_integer uid \<Longrightarrow> find_unlock db uid key = None \<Longrightarrow>
   share_achievement now uid key platform db =
     (Inl (HTTPException 404 ''Achievement not found''), db)"
  by (simp add: share_achievement_def query_existing_def)

lemma share_overflow:
  "\<not> sqlite_integer uid \<Longrightarrow>
   share_achievement now uid key platform db = (Inl OverflowError, db)"
  by (simp add: share_achievement_def query_existing_def)

lemma share_found:
  "sqlite_integer uid \<Longrightarrow> find_unlock db uid key = Some ua \<Longrightarrow>
   share_achievement now uid key platform db =
     (Inr (case ACHIEVEMENTS key of
             Some a \<Rightarrow> \<lparr>success = True, sr_viral_text = Some (viral_text a),
                        points_awarded = Some 5\<rparr>
           | None \<Rightarrow> \<lparr>success = True, sr_viral_text = None, points_awarded = None\<rparr>),
      db\<lparr>user_achievements :=
           update_first (is_unlock uid key) (mark_shared platform now) (user_achievements db)\<rparr>)"
  by (simp add: share_achievement_def query_existing_def Let_def split: option.splits)

text \<open>
  C7, as the code has it. For a user id that the store can bind, a 64-bit signed
  integer, the call fails with the 404 \<^verbatim>\<open>Achievement not found\<close> exactly when the ledger
  has no row for the user and key, and it raises nothing else; for an id outside that
  range the query raises \<^verbatim>\<open>OverflowError\<close>; whenever the call fails it changes nothing.
  When a row exists, the row that the query finds gets \<^verbatim>\<open>shared = True\<close>, the given
  platform and the time of the call, every row of another user or key is left as it is,
  and no row is added or removed. On a reachable ledger the key of an existing row is
  in the catalog, and the call returns the catalog's \<^verbatim>\<open>viral_text\<close> of the key with 5
  bonus points.
\<close>

theorem share_achievement_marks_and_returns:
  "(sqlite_integer uid \<longrightarrow>
      (fst (share_achievement now uid key platform db) =
           Inl (HTTPException 404 ''Achievement not found'')
         \<longleftrightarrow> unlock_count db uid key = 0)
      \<and> (\<forall>e. fst (share_achievement now uid key platform db) = Inl e \<longrightarrow>
            e = HTTPException 404 ''Achievement not found'')
      \<and> (0 < unlock_count db uid key \<longrightarrow> (\<exists>ua. query_existing db uid key = Inr (Some ua))))
   \<and> (\<not> sqlite_integer uid \<longrightarrow>
        fst (share_achievement now uid key platform db) = Inl OverflowError)
   \<and> (\<forall>e. fst (share_achievement now uid key platform db) = Inl e \<longrightarrow>
        snd (share_achievement now uid key platform db) = db)
   \<and> (\<forall>ua. query_existing db uid key = Inr (Some ua) \<longrightarrow>
        query_existing (snd (share_achievement now uid key platform db)) uid key =
          Inr (Some (ua\<lparr>shared := True, shared_platform := Some platform,
                        shared_at := Some now\<rparr>))
        \<and> filter (\<lambda>r. \<not> is_unlock uid key r)
            (user_achievements (snd (share_achievement now uid key platform db))) =
          filter (\<lambda>r. \<not> is_unlock uid key r) (user_achievements db)
        \<and> unlock_count (snd (share_achievement now uid key platform db)) uid key =
          unlock_count db uid key)
   \<and> (\<forall>ua a. query_existing db uid key = Inr (Some ua) \<and> ACHIEVEMENTS key = Some a \<longrightarrow>
        fst (share_achievement now uid key platform db) =
          Inr \<lparr>success = True, sr_viral_text = Some (viral_text a), points_awarded = Some 5\<rparr>)
   \<and> (reachable db \<longrightarrow> (\<forall>ua. query_existing db uid key = Inr (Some ua) \<longrightarrow>
        (\<exists>a. ACHIEVEMENTS key = Some a \<and>
          fst (share_achievement now uid key platform db) =
            Inr \<lparr>success = True, sr_viral_text = Some (viral_text a),
                 points_awarded = Some 5\<rparr>)))"
proof (cases "sqlite_integer uid")
  case False
  then show ?thesis
    by (simp add: share_overflow query_existing_def)
next
  case range: True
  show ?thesis
  proof (cases "find_unlock db uid key")
    case None
    then have "unlock_count db uid key = 0"
      by (simp add: find_unlock_None_iff)
    with None range show ?thesis
      by (simp add: share_missing query_existing_def)
  next
    case (Some ua)
    note found = share_found [OF range Some, of now platform]
    have q: "query_existing (snd (share_achievement now uid key platform db)) uid key =
            Inr (Some (ua\<lparr>shared := True, shared_platform := Some platform,
                          shared_at := Some now\<rparr>))"
    proof -
      have "find (is_unlock uid key)
              (update_first (is_unlock uid key) (mark_shared platform now)
                 (user_achievements db)) =
            map_option (mark_shared platform now)
              (find (is_unlock uid key) (user_achievements db))"
        by (rule find_update_first) simp
      then show ?thesis
        using Some range unfolding found snd_conv query_existing_def find_unlock_def
        by (simp add: mark_shared_def)
    qed
    have o: "filter (\<lambda>r. \<not> is_unlock uid key r)
              (user_achievements (snd (share_achievement now uid key platform db))) =
            filter (\<lambda>r. \<not> is_unlock uid key r) (user_achievements db)"
      unfolding found snd_conv by (simp add: update_first_others)
    have c: "unlock_count (snd (share_achievement now uid key platform db)) uid key =
            unlock_count db uid key"
      unfolding found snd_conv unlock_count_def by (simp add: update_first_count)
    have nz: "unlock_count db uid key \<noteq> 0"
      using Some find_unlock_None_iff [of db uid key] by simp
    have r: "fst (share_achievement now uid key platform db) =
            Inr \<lparr>success = True, sr_viral_text = Some (viral_text a),
                 points_awarded = Some 5\<rparr>"
      if "ACHIEVEMENTS key = Some a" for a
      unfolding found fst_conv using that by simp
    have rr: "\<exists>a. ACHIEVEMENTS key = Some a \<and>
            fst (share_achievement now uid key platform db) =
              Inr \<lparr>success = True, sr_viral_text = Some (viral_text a),
                   points_awarded = Some 5\<rparr>" if "reachable db"
      using reachable_existing_in_catalog [OF that Some] r by blast
    have ne: "\<And>e. fst (share_achievement now uid key platform db) \<noteq> Inl e"
      unfolding found fst_conv by simp
    have qe: "query_existing db uid key = Inr (Some ua)"
      using range Some by (simp add: query_existing_def)
    show ?thesis
      using range qe q o c nz r rr ne by simp
  qed
qed

theorem share_achievement_marks_and_returns_witness:
  "fst (share_achievement 30 1 ''first_booking'' ''instagram''
          (snd (check_achievements
             \<lparr>now_first_booking = 10, now_streak_window = 10, now_seven_day_streak = 10,
              now_perfect_game = 10\<rparr> 1
             \<lparr>users = [\<lparr>u_id = 1\<rparr>],
              bookings = [\<lparr>booking_user_id = 1, booking_created_at = Some 0\<rparr>],
              games = [], user_achievements = []\<rparr>))) =
     Inr \<lparr>success = True,
          sr_viral_text = Some (''I just booked my first run via GIA! ''
                                  @ [CHR 0xF0, CHR 0x9F, CHR 0x9A, CHR 0x80]),
          points_awarded = Some 5\<rparr>
   \<and> query_existing
        (snd (share_achievement 30 1 ''first_booking'' ''instagram''
          (snd (check_achievements
             \<lparr>now_first_booking = 10, now_streak_window = 10, now_seven_day_streak = 10,
              now_perfect_game = 10\<rparr> 1
             \<lparr>users = [\<lparr>u_id = 1\<rparr>],
              bookings = [\<lparr>booking_user_id = 1, booking_created_at = Some 0\<rparr>],
              games = [], user_achievements = []\<rparr>)))) 1 ''first_booking'' =
     Inr (Some \<lparr>ua_id = 1, ua_user_id = 1, achievement_key = ''first_booking'',
           unlocked_at = Some 10, shared = True, shared_platform = Some ''instagram'',
           shared_at = Some 30\<rparr>)"
proof -
  let ?init = "\<lparr>users = [\<lparr>u_id = 1\<rparr>],
              bookings = [\<lparr>booking_user_id = 1, booking_created_at = Some 0\<rparr>],
              games = [], user_achievements = []\<rparr>"
  let ?c = "\<lparr>now_first_booking = 10, now_streak_window = 10, now_seven_day_streak = 10,
              now_perfect_game = 10\<rparr>"
  let ?db = "snd (check_achievements ?c 1 ?init)"
  have "reachable ?init"
    by (rule reachable.initial) simp
  then have r: "reachable ?db"
    by (rule reachable.check)
  have "user_achievements ?db =
          [\<lparr>ua_id = 1, ua_user_id = 1, achievement_key = ''first_booking'',
            unlocked_at = Some 10, shared = False, shared_platform = None,
            shared_at = None\<rparr>]"
    by (simp add: check_achievements_def query_user_def find_user_def sqlite_integer_def
          bookings_count_def recent_bookings_def perfect_games_def timedelta_days_def
          unlock_if_new_def query_existing_def find_unlock_def Let_def bind_err_def
          commit_def insert_row_def)
  then have q: "query_existing ?db 1 ''first_booking'' =
          Inr (Some \<lparr>ua_id = 1, ua_user_id = 1, achievement_key = ''first_booking'',
            unlocked_at = Some 10, shared = False, shared_platform = None,
            shared_at = None\<rparr>)"
    by (simp add: query_existing_def find_unlock_def is_unlock_def sqlite_integer_def)
  have a: "ACHIEVEMENTS ''first_booking'' =
          Some \<lparr>name = ''First Steps'',
            description = ''Booked your first training session'',
            points = 50,
            icon = [CHR 0xF0, CHR 0x9F, CHR 0x8F, CHR 0x86],
            reward = None,
            viral_text = ''I just booked my first run via GIA! ''
                           @ [CHR 0xF0, CHR 0x9F, CHR 0x9A, CHR 0x80]\<rparr>"
    by (simp add: ACHIEVEMENTS_def)
  from share_achievement_marks_and_returns [of 1 30 "''first_booking''" "''instagram''" ?db]
    r q a
  show ?thesis by simp
qed

text \<open>
  C7, as stated, fails at the user id \<open>2 ^ 63\<close>: the ledger has no row for it, and the
  call fails with \<^verbatim>\<open>OverflowError\<close>, not with the 404.
\<close>

theorem share_achievement_overflow_counterexample:
  "unlock_count
     \<lparr>users = [\<lparr>u_id = 1\<rparr>],
      bookings = [\<lparr>booking_user_id = 1, booking_created_at = Some 0\<rparr>],
      games = [], user_achievements = []\<rparr> 9223372036854775808 ''first_booking'' = 0
   \<and> fst (share_achievement 30 9223372036854775808 ''first_booking'' ''instagram''
        \<lparr>users = [\<lparr>u_id = 1\<rparr>],
         bookings = [\<lparr>booking_user_id = 1, booking_created_at = Some 0\<rparr>],
         games = [], user_achievements = []\<rparr>) = Inl OverflowError"
  by (simp add: share_achievement_def query_existing_def sqlite_integer_def unlock_count_def)

section \<open>The leaderboard\<close>

text \<open>
  C8, at a ledger in which user 7 holds \<^verbatim>\<open>first_booking\<close> and users 1 and 2 hold
  nothing. The claim says that the leaderboard ranks users by the sum of the catalog
  points of their rows, which here is 50 for user 7 and 0 for users 1 and 2. The
  endpoint returns its two fixed rows, user 1 with 450 points and user 2 with 380.
\<close>

theorem leaderboard_ignores_ledger:
  "map (\<lambda>e. (le_user_id e, le_total_points e))
     (get_achievement_leaderboard
        \<lparr>users = [\<lparr>u_id = 7\<rparr>],
         bookings = [\<lparr>booking_user_id = 7, booking_created_at = Some 0\<rparr>],
         games = [],
         user_achievements =
           [\<lparr>ua_id = 1, ua_user_id = 7, achievement_key = ''first_booking'',
             unlocked_at = Some 5, shared = False, shared_platform = None,
             shared_at = None\<rparr>]\<rparr>) = [(1, 450), (2, 380)]
   \<and> map (spec_total_points
        \<lparr>users = [\<lparr>u_id = 7\<rparr>],
         bookings = [\<lparr>booking_user_id = 7, booking_created_at = Some 0\<rparr>],
         games = [],
         user_achievements =
           [\<lparr>ua_id = 1, ua_user_id = 7, achievement_key = ''first_booking'',
             unlocked_at = Some 5, shared = False, shared_platform = None,
             shared_at = None\<rparr>]\<rparr>) [1, 2, 7] = [0, 0, 50]"
  by (simp add: get_achievement_leaderboard_def spec_total_points_def ACHIEVEMENTS_def)

end
